theory Spec2Isabelle
  imports Complex_Main "HOL-Library.Word"
begin

section \<open>JavaScript strings\<close>

text \<open>
  Strings are modelled as \<^typ>\<open>string\<close>, one \<^typ>\<open>char\<close> per code unit, so the
  development covers the code units up to 0xFF. On that range \<open>toLowerCase\<close> lowers
  the letters A to Z and the Latin-1 capitals 0xC0 to 0xDE (0xD7, the multiplication
  sign, is no letter); \<open>\w\<close>, \<open>\d\<close> and \<open>\b\<close> know the ASCII letters and digits
  only, and the flag \<open>i\<close> identifies an ASCII letter with its other case and with
  nothing else.
\<close>

definition startsWith :: "string \<Rightarrow> string \<Rightarrow> bool" where
  "startsWith s p = (take (length p) s = p)"

definition endsWith :: "string \<Rightarrow> string \<Rightarrow> bool" where
  "endsWith s p = (length p \<le> length s \<and> drop (length s - length p) s = p)"

fun str_includes :: "string \<Rightarrow> string \<Rightarrow> bool" where
  "str_includes [] p = (p = [])"
| "str_includes (c # cs) p = (startsWith (c # cs) p \<or> str_includes cs p)"

definition isUpper :: "char \<Rightarrow> bool" where
  "isUpper c = (65 \<le> (of_char c :: nat) \<and> (of_char c :: nat) \<le> 90)"

definition isLower :: "char \<Rightarrow> bool" where
  "isLower c = (97 \<le> (of_char c :: nat) \<and> (of_char c :: nat) \<le> 122)"

definition isDigit :: "char \<Rightarrow> bool" where
  "isDigit c = (48 \<le> (of_char c :: nat) \<and> (of_char c :: nat) \<le> 57)"

definition isLatin1Upper :: "char \<Rightarrow> bool" where
  "isLatin1Upper c =
     (192 \<le> (of_char c :: nat) \<and> (of_char c :: nat) \<le> 222 \<and> (of_char c :: nat) \<noteq> 215)"

definition lowerChar :: "char \<Rightarrow> char" where
  "lowerChar c =
     (if isUpper c \<or> isLatin1Upper c then char_of ((of_char c :: nat) + 32) else c)"

definition foldCase :: "char \<Rightarrow> char" where
  \<comment> \<open>the comparison key of a character under the flag \<open>i\<close>\<close>
  "foldCase c = (if isUpper c then char_of ((of_char c :: nat) + 32) else c)"

definition toLowerCase :: "string \<Rightarrow> string" where
  "toLowerCase s = map lowerChar s"

definition isWordChar :: "char \<Rightarrow> bool" where
  \<comment> \<open>the class \<open>\w\<close>\<close>
  "isWordChar c = (isUpper c \<or> isLower c \<or> isDigit c \<or> c = CHR ''_'')"

definition isLineTerminator :: "char \<Rightarrow> bool" where
  "isLineTerminator c = (c = CHR 0x0A \<or> c = CHR 0x0D)"

definition split_first :: "char \<Rightarrow> string \<Rightarrow> string" where
  \<comment> \<open>\<open>s.split(sep)[0]\<close>\<close>
  "split_first sep s = takeWhile (\<lambda>c. c \<noteq> sep) s"

section \<open>Regular expressions\<close>

text \<open>
  The regular expressions of the source are written as values of \<open>rexp\<close> and run by a
  backtracking matcher. A position is the character before the cursor (none at the start
  of the input) and the rest of the input; \<open>run r p\<close> lists the positions at which a
  match of \<open>r\<close> starting at \<open>p\<close> can end, in the order in which a backtracking engine
  tries them (alternatives left to right, greedy repetitions longest first). The
  repetitions of the source's patterns have bodies that consume a character, and for
  such patterns the head of the list is the match JavaScript reports.
\<close>

datatype rexp =
    Eps
  | Atom "char \<Rightarrow> bool"
  | Seq rexp rexp
  | Alt rexp rexp
  | Rep nat "nat option" rexp
  | Bol
  | Eol
  | WordB

type_synonym pos = "char option \<times> string"

fun rep :: "(pos \<Rightarrow> pos list) \<Rightarrow> nat \<Rightarrow> nat \<Rightarrow> pos \<Rightarrow> pos list" where
  "rep f lo 0 p = (if lo = 0 then [p] else [])"
| "rep f lo (Suc hi) p =
     concat (map (rep f (lo - 1) hi) (f p)) @ (if lo = 0 then [p] else [])"

definition atWordBoundary :: "pos \<Rightarrow> bool" where
  "atWordBoundary p =
     ((case fst p of None \<Rightarrow> False | Some c \<Rightarrow> isWordChar c)
      \<noteq> (case snd p of [] \<Rightarrow> False | c # _ \<Rightarrow> isWordChar c))"

fun run :: "rexp \<Rightarrow> pos \<Rightarrow> pos list" where
  "run Eps p = [p]"
| "run (Atom P) p =
     (case snd p of [] \<Rightarrow> [] | c # cs \<Rightarrow> if P c then [(Some c, cs)] else [])"
| "run (Seq a b) p = concat (map (\<lambda>q. run b q) (run a p))"
| "run (Alt a b) p = run a p @ run b p"
| "run (Rep lo hi a) p =
     rep (\<lambda>q. run a q) lo (case hi of None \<Rightarrow> lo + length (snd p) | Some h \<Rightarrow> h) p"
| "run Bol p = (if fst p = None then [p] else [])"
| "run Eol p = (if snd p = [] then [p] else [])"
| "run WordB p = (if atWordBoundary p then [p] else [])"

fun positions :: "char option \<Rightarrow> string \<Rightarrow> pos list" where
  "positions prev [] = [(prev, [])]"
| "positions prev (c # cs) = (prev, c # cs) # positions (Some c) cs"

definition regex_test :: "rexp \<Rightarrow> string \<Rightarrow> bool" where
  \<comment> \<open>\<open>r.test(s)\<close>: some position of \<open>s\<close> starts a match\<close>
  "regex_test r s = list_ex (\<lambda>p. run r p \<noteq> []) (positions None s)"

fun match_all :: "rexp \<Rightarrow> nat \<Rightarrow> char option \<Rightarrow> string \<Rightarrow> string list" where
  \<comment> \<open>\<open>s.match(r)\<close> with the flag \<open>g\<close>: the matches from left to right, each search
      resuming where the previous match ended; \<open>skip\<close> counts the characters of the
      current match still to pass over\<close>
  "match_all r skip prev [] = (if skip = 0 \<and> run r (prev, []) \<noteq> [] then [[]] else [])"
| "match_all r skip prev (c # cs) =
     (if skip > 0 then match_all r (skip - 1) (Some c) cs
      else case run r (prev, c # cs) of
             [] \<Rightarrow> match_all r 0 (Some c) cs
           | e # _ \<Rightarrow>
               (let n = length (c # cs) - length (snd e)
                in take n (c # cs) # match_all r (n - 1) (Some c) cs))"

fun replace_first :: "rexp \<Rightarrow> char option \<Rightarrow> string \<Rightarrow> string" where
  \<comment> \<open>\<open>s.replace(r, '')\<close> without the flag \<open>g\<close>: the leftmost match is removed\<close>
  "replace_first r prev [] = []"
| "replace_first r prev (c # cs) =
     (case run r (prev, c # cs) of
        [] \<Rightarrow> c # replace_first r (Some c) cs
      | e # _ \<Rightarrow> snd e)"

fun replace_all :: "rexp \<Rightarrow> nat \<Rightarrow> char option \<Rightarrow> string \<Rightarrow> string" where
  \<comment> \<open>\<open>s.replace(r, '')\<close> with the flag \<open>g\<close>: every match is removed\<close>
  "replace_all r skip prev [] = []"
| "replace_all r skip prev (c # cs) =
     (if skip > 0 then replace_all r (skip - 1) (Some c) cs
      else case run r (prev, c # cs) of
             [] \<Rightarrow> c # replace_all r 0 (Some c) cs
           | e # _ \<Rightarrow>
               (let n = length (c # cs) - length (snd e)
                in if n = 0 then c # replace_all r 0 (Some c) cs
                   else replace_all r (n - 1) (Some c) cs))"

text \<open>Notation of the source's patterns.\<close>

definition chr :: "char \<Rightarrow> rexp" where
  "chr c = Atom (\<lambda>x. x = c)"

definition chrI :: "char \<Rightarrow> rexp" where
  \<comment> \<open>a character under the flag \<open>i\<close>\<close>
  "chrI c = Atom (\<lambda>x. foldCase x = foldCase c)"

definition oneOf :: "string \<Rightarrow> rexp" where
  "oneOf cs = Atom (\<lambda>x. x \<in> set cs)"

definition lit :: "string \<Rightarrow> rexp" where
  "lit s = foldr (\<lambda>c r. Seq (chr c) r) s Eps"

definition litI :: "string \<Rightarrow> rexp" where
  "litI s = foldr (\<lambda>c r. Seq (chrI c) r) s Eps"

definition alts :: "rexp list \<Rightarrow> rexp" where
  "alts rs = foldr Alt (butlast rs) (last rs)"

definition Star :: "rexp \<Rightarrow> rexp" where
  "Star r = Rep 0 None r"

definition Plus :: "rexp \<Rightarrow> rexp" where
  "Plus r = Rep 1 None r"

definition Opt :: "rexp \<Rightarrow> rexp" where
  "Opt r = Rep 0 (Some 1) r"

definition digit :: rexp where
  "digit = Atom isDigit"

definition wordc :: rexp where
  "wordc = Atom isWordChar"

definition alnum :: rexp where
  \<comment> \<open>\<open>[a-zA-Z0-9]\<close>\<close>
  "alnum = Atom (\<lambda>c. isLower c \<or> isUpper c \<or> isDigit c)"

definition alnumDash :: rexp where
  \<comment> \<open>\<open>[a-zA-Z0-9-]\<close>\<close>
  "alnumDash = Atom (\<lambda>c. isLower c \<or> isUpper c \<or> isDigit c \<or> c = CHR ''-'')"

definition anyChar :: rexp where
  \<comment> \<open>the dot: any character but a line terminator\<close>
  "anyChar = Atom (\<lambda>c. \<not> isLineTerminator c)"

section \<open>Domain validation (utils.ts)\<close>

definition ipRegex :: rexp where
  \<comment> \<open>\<open>/^(?:[0-9]{1,3}\.){3}[0-9]{1,3}$/\<close>\<close>
  "ipRegex =
     Seq Bol (Seq (Rep 3 (Some 3) (Seq (Rep 1 (Some 3) digit) (chr CHR ''.'')))
       (Seq (Rep 1 (Some 3) digit) Eol))"

definition domainLabel :: rexp where
  \<comment> \<open>\<open>[a-zA-Z0-9]([a-zA-Z0-9-]{0,61}[a-zA-Z0-9])?\<close>\<close>
  "domainLabel = Seq alnum (Opt (Seq (Rep 0 (Some 61) alnumDash) alnum))"

definition domainRegex :: rexp where
  \<comment> \<open>\<open>/^[a-zA-Z0-9]([a-zA-Z0-9-]{0,61}[a-zA-Z0-9])?(\.[a-zA-Z0-9]([a-zA-Z0-9-]{0,61}[a-zA-Z0-9])?)*$/\<close>\<close>
  "domainRegex =
     Seq Bol (Seq domainLabel (Seq (Star (Seq (chr CHR ''.'') domainLabel)) Eol))"

definition singleWordRegex :: rexp where
  \<comment> \<open>\<open>/^[a-zA-Z0-9][a-zA-Z0-9-]*[a-zA-Z0-9]*$/\<close>\<close>
  "singleWordRegex = Seq Bol (Seq alnum (Seq (Star alnumDash) (Seq (Star alnum) Eol)))"

definition protocolPrefix :: rexp where
  \<comment> \<open>\<open>/^https?:\/\//\<close>\<close>
  "protocolPrefix = Seq Bol (Seq (lit ''http'') (Seq (Opt (chr CHR ''s'')) (lit ''://'')))"

definition pathSuffix :: rexp where
  \<comment> \<open>\<open>/\/.*$/\<close>\<close>
  "pathSuffix = Seq (chr CHR ''/'') (Seq (Star anyChar) Eol)"

definition isValidDomain :: "string \<Rightarrow> bool" where
  "isValidDomain domain =
     (let cleanDomain =
            split_first CHR '':''
              (replace_first pathSuffix None (replace_first protocolPrefix None domain))
      in if cleanDomain = ''localhost'' then True
         else if regex_test ipRegex cleanDomain then True
         else if regex_test domainRegex cleanDomain \<and> str_includes cleanDomain ''.'' then True
         else if regex_test singleWordRegex cleanDomain \<and> length cleanDomain \<ge> 2 then True
         else False)"

section \<open>Floating-point numbers\<close>

text \<open>
  A JavaScript \<open>number\<close> is an IEEE 754 double and an AssemblyScript \<open>f32\<close> a single.
  A finite float is modelled as the rational it denotes. \<open>roundFloat prec emin x\<close> is
  the float nearest to \<open>x\<close> in the format with \<open>prec\<close> significant bits and least
  normal exponent \<open>emin\<close>, ties going to the even significand: the value of a decimal
  literal, and the result of an addition applied to the exact sum. Overflow to infinity,
  NaN and the sign of zero are outside the model; the scores stay between 0 and 2.
\<close>

definition roundHalfEven :: "rat \<Rightarrow> int" where
  "roundHalfEven x =
     (let f = \<lfloor>x\<rfloor>; d = x - of_int f
      in if d < 1 / 2 then f else if 1 / 2 < d then f + 1 else if even f then f else f + 1)"

fun binExponent :: "nat \<Rightarrow> rat \<Rightarrow> int" where
  \<comment> \<open>for \<open>x > 0\<close>, the \<open>e\<close> with \<open>2 ^ e \<le> x < 2 ^ (e + 1)\<close>, searched in at most the
      given number of halvings or doublings\<close>
  "binExponent 0 x = 0"
| "binExponent (Suc n) x =
     (if 2 \<le> x then binExponent n (x / 2) + 1
      else if x < 1 then binExponent n (x * 2) - 1
      else 0)"

definition pow2 :: "int \<Rightarrow> rat" where
  "pow2 e = (if 0 \<le> e then 2 ^ nat e else 1 / 2 ^ nat (- e))"

definition roundFloat :: "nat \<Rightarrow> int \<Rightarrow> rat \<Rightarrow> rat" where
  "roundFloat prec emin x =
     (if x = 0 then 0
      else
        let a = \<bar>x\<bar>;
            e = max emin (binExponent 2200 a);
            ulp = pow2 (e - int prec + 1)
        in sgn x * of_int (roundHalfEven (a / ulp)) * ulp)"

definition f64 :: "rat \<Rightarrow> rat" where
  "f64 x = roundFloat 53 (- 1022) x"

definition f32 :: "rat \<Rightarrow> rat" where
  "f32 x = roundFloat 24 (- 126) x"

section \<open>Confidence scoring (wasm-pattern-matcher.ts, wasm/assembly/index.ts, pattern-matcher.ts)\<close>

text \<open>
  \<open>WASMPatternMatcherImpl.calculateConfidence(patternCount, matchCount)\<close>. The counts are
  integers. A literal \<open>0.3\<close> is the double \<open>f64 (3 / 10)\<close> and \<open>confidence += 0.2\<close>
  is the rounded sum; \<open>0.0\<close> and \<open>1.0\<close> are exact.
\<close>

definition calculateConfidence :: "int \<Rightarrow> int \<Rightarrow> rat" where
  "calculateConfidence patternCount matchCount =
     (if matchCount = 0 then 0
      else
        let confidence = f64 (3 / 10);
            confidence = (if matchCount > 1 then f64 (confidence + f64 (2 / 10)) else confidence);
            confidence = (if matchCount > 5 then f64 (confidence + f64 (2 / 10)) else confidence);
            confidence = (if matchCount > 10 then f64 (confidence + f64 (1 / 10)) else confidence);
            confidence = (if patternCount > 2 then f64 (confidence + f64 (2 / 10)) else confidence)
        in min confidence 1)"

text \<open>
  The AssemblyScript twin takes \<open>i32\<close> arguments, compares them as signed integers and
  keeps \<open>confidence\<close> in an \<open>f32\<close>: a literal is the double narrowed to a single, each
  sum is rounded to a single, and the minimum with \<open>1.0\<close>, taken on doubles, is narrowed
  back by \<open>as f32\<close>.
\<close>

definition wasm_calculateConfidence :: "32 word \<Rightarrow> 32 word \<Rightarrow> rat" where
  "wasm_calculateConfidence patternCount matchCount =
     (if matchCount = 0 then 0
      else
        let confidence = f32 (f64 (3 / 10));
            confidence = (if sint matchCount > 1 then f32 (confidence + f32 (f64 (2 / 10)))
                          else confidence);
            confidence = (if sint matchCount > 5 then f32 (confidence + f32 (f64 (2 / 10)))
                          else confidence);
            confidence = (if sint matchCount > 10 then f32 (confidence + f32 (f64 (1 / 10)))
                          else confidence);
            confidence = (if sint patternCount > 2 then f32 (confidence + f32 (f64 (2 / 10)))
                          else confidence)
        in f32 (min confidence 1))"

text \<open>
  \<open>PatternMatcher.calculateConfidence(pattern, matches)\<close>, the scoring that
  \<open>extractEndpoints\<close> and \<open>extractJavaScriptAPIs\<close> call; \<open>source\<close> is
  \<open>pattern.source\<close>.
\<close>

definition PatternMatcher_calculateConfidence :: "string \<Rightarrow> string list \<Rightarrow> rat" where
  "PatternMatcher_calculateConfidence source matches =
     (let confidence = f64 (5 / 10);
          confidence = (if str_includes source ''api'' then f64 (confidence + f64 (3 / 10))
                        else confidence);
          confidence = (if str_includes source ''rest'' then f64 (confidence + f64 (2 / 10))
                        else confidence);
          confidence = (if str_includes source ''graphql'' then f64 (confidence + f64 (3 / 10))
                        else confidence);
          confidence = (if length matches > 1 then f64 (confidence + f64 (1 / 10)) else confidence);
          confidence = (if length matches > 5 then f64 (confidence + f64 (1 / 10)) else confidence)
      in min confidence 1)"

text \<open>
  The scoring rule as the specification words it, in exact decimal arithmetic: zero for
  no match, otherwise the base and the four bonuses, clamped to the unit interval.
\<close>

definition confidence_spec :: "int \<Rightarrow> int \<Rightarrow> rat" where
  "confidence_spec patternCount matchCount =
     (if matchCount = 0 then 0
      else max 0 (min 1
        (3 / 10
         + (if matchCount > 1 then 2 / 10 else 0)
         + (if matchCount > 5 then 2 / 10 else 0)
         + (if matchCount > 10 then 1 / 10 else 0)
         + (if patternCount > 2 then 2 / 10 else 0))))"

text \<open>
  The three computations as functions of the outcomes of their tests, and the exact
  decimal value of the pattern matcher's own rule.
\<close>

definition confidence_chain ::
  "(rat \<Rightarrow> rat) \<Rightarrow> (rat \<Rightarrow> rat) \<Rightarrow> bool \<Rightarrow> bool \<Rightarrow> bool \<Rightarrow> bool \<Rightarrow> rat" where
  \<comment> \<open>\<open>narrow\<close> takes a double to the format of \<open>confidence\<close>, \<open>rnd\<close> rounds a sum\<close>
  "confidence_chain narrow rnd b1 b5 b10 bp =
     (let confidence = narrow (f64 (3 / 10));
          confidence = (if b1 then rnd (confidence + narrow (f64 (2 / 10))) else confidence);
          confidence = (if b5 then rnd (confidence + narrow (f64 (2 / 10))) else confidence);
          confidence = (if b10 then rnd (confidence + narrow (f64 (1 / 10))) else confidence);
          confidence = (if bp then rnd (confidence + narrow (f64 (2 / 10))) else confidence)
      in narrow (min confidence 1))"

definition pattern_chain :: "bool \<Rightarrow> bool \<Rightarrow> bool \<Rightarrow> bool \<Rightarrow> bool \<Rightarrow> rat" where
  "pattern_chain a r g b1 b5 =
     (let confidence = f64 (5 / 10);
          confidence = (if a then f64 (confidence + f64 (3 / 10)) else confidence);
          confidence = (if r then f64 (confidence + f64 (2 / 10)) else confidence);
          confidence = (if g then f64 (confidence + f64 (3 / 10)) else confidence);
          confidence = (if b1 then f64 (confidence + f64 (1 / 10)) else confidence);
          confidence = (if b5 then f64 (confidence + f64 (1 / 10)) else confidence)
      in min confidence 1)"

definition pattern_exact :: "bool \<Rightarrow> bool \<Rightarrow> bool \<Rightarrow> bool \<Rightarrow> bool \<Rightarrow> rat" where
  "pattern_exact a r g b1 b5 =
     min 1 (5 / 10 + (if a then 3 / 10 else 0) + (if r then 2 / 10 else 0)
              + (if g then 3 / 10 else 0) + (if b1 then 1 / 10 else 0)
              + (if b5 then 1 / 10 else 0))"

text \<open>
  A table of scores: by whether the pattern bonus applies (\<open>low\<close> without it, \<open>high\<close>
  with it) and by how many of the thresholds 1, 5 and 10 the match count exceeds.
\<close>

definition confidence_values ::
  "rat \<times> rat \<times> rat \<times> rat \<Rightarrow> rat \<times> rat \<times> rat \<times> rat \<Rightarrow> int \<Rightarrow> int \<Rightarrow> rat" where
  "confidence_values low high patternCount matchCount =
     (if matchCount = 0 then 0
      else (case (if patternCount > 2 then high else low) of
              (v0, v1, v2, v3) \<Rightarrow>
                if matchCount > 10 then v3
                else if matchCount > 5 then v2
                else if matchCount > 1 then v1
                else v0))"

section \<open>Parsed URLs\<close>

text \<open>
  \<open>new URL(s)\<close> belongs to the platform, not to the repository. The parser is a parameter
  \<open>parseURL\<close> of every function that calls it: \<open>None\<close> where the constructor throws,
  otherwise the fields the source reads.
\<close>

record URL =
  protocol :: string
  host :: string
  hostname :: string
  pathname :: string
  search :: string
  hash :: string
  searchParams :: "(string \<times> string) list"

type_synonym url_parser = "string \<Rightarrow> URL option"

section \<open>Data model (types.ts)\<close>

text \<open>
  The records carry the fields that the crawler sets; the optional fields it never
  assigns (\<open>description\<close>, \<open>example\<close>, \<open>responseType\<close>, \<open>statusCode\<close>,
  \<open>responseSize\<close>, \<open>authType\<close>) are left out.
\<close>

datatype param_type = Query | Path | Body | Header

record Parameter =
  p_name :: string
  p_type :: param_type
  p_required :: bool

record HeaderEntry =
  h_name :: string
  h_value :: string

datatype severity = Low | Medium | High | Critical

record SecurityVulnerability =
  v_type :: string
  v_severity :: severity
  v_description :: string
  v_recommendation :: string

record SecurityAnalysis =
  hasAuth :: bool
  vulnerabilities :: "SecurityVulnerability list"
  riskLevel :: severity

datatype source = Crawl | Js | Html | Sitemap | Robots

record Endpoint =
  ep_id :: string
  ep_url :: string
  ep_method :: string
  ep_parameters :: "Parameter list"
  ep_headers :: "HeaderEntry list"
  ep_responseTime :: "int option"
  ep_depth :: int
  ep_source :: source
  ep_security :: "SecurityAnalysis option"

record ScannerConfig =
  maxDepth :: int
  maxPages :: int
  respectRobots :: bool
  includeExternalLinks :: bool
  crawlDelay :: int
  userAgent :: string
  enableJavaScript :: bool
  timeout :: int

section \<open>Parameter extraction (pattern-matcher.ts)\<close>

record RawParam =
  rp_name :: string
  rp_type :: param_type

definition pathParamRegex :: rexp where
  \<comment> \<open>\<open>/\{(\w+)\}|:(\w+)/g\<close>\<close>
  "pathParamRegex =
     Alt (Seq (chr CHR ''{'') (Seq (Plus wordc) (chr CHR ''}'')))
         (Seq (chr CHR '':'') (Plus wordc))"

definition bracesColon :: rexp where
  \<comment> \<open>\<open>/[{}:]/g\<close>\<close>
  "bracesColon = oneOf ''{}:''"

definition extractParameters :: "url_parser \<Rightarrow> string \<Rightarrow> RawParam list" where
  "extractParameters parseURL url =
     (case parseURL url of
        None \<Rightarrow> []
      | Some urlObj \<Rightarrow>
          map (\<lambda>kv. \<lparr>rp_name = fst kv, rp_type = Query\<rparr>) (searchParams urlObj)
          @ map (\<lambda>param. \<lparr>rp_name = replace_all bracesColon 0 None param, rp_type = Path\<rparr>)
              (match_all pathParamRegex 0 None url))"

section \<open>Endpoint registry and security classifier (spider-crawler.ts)\<close>

definition analyzeEndpointSecurity :: "string \<Rightarrow> string \<Rightarrow> SecurityAnalysis" where
  "analyzeEndpointSecurity url method =
     (let vulnerabilities = [];
          riskLevel = Low;
          (vulnerabilities, riskLevel) =
            (if startsWith url ''http://''
             then (vulnerabilities @
                     [\<lparr>v_type = ''Insecure Protocol'', v_severity = Medium,
                       v_description = ''Endpoint uses HTTP instead of HTTPS'',
                       v_recommendation = ''Use HTTPS for all API endpoints''\<rparr>], Medium)
             else (vulnerabilities, riskLevel));
          (vulnerabilities, riskLevel) =
            (if method = ''DELETE''
             then (vulnerabilities @
                     [\<lparr>v_type = ''Destructive Operation'', v_severity = High,
                       v_description = ''Endpoint performs destructive operations'',
                       v_recommendation = ''Ensure proper authentication and authorization''\<rparr>],
                   High)
             else (vulnerabilities, riskLevel))
      in \<lparr>hasAuth = str_includes url ''/auth'' \<or> str_includes url ''/login'',
          vulnerabilities = vulnerabilities,
          riskLevel = riskLevel\<rparr>)"

definition createEndpoint ::
  "url_parser \<Rightarrow> string \<Rightarrow> string \<Rightarrow> source \<Rightarrow> int \<Rightarrow> Endpoint option" where
  "createEndpoint parseURL url method src depth =
     (case parseURL url of
        None \<Rightarrow> None
      | Some urlObj \<Rightarrow>
          Some \<lparr>ep_id = method @ '':'' @ url,
                ep_url = url,
                ep_method = method,
                ep_parameters =
                  map (\<lambda>param. \<lparr>p_name = rp_name param, p_type = rp_type param,
                               p_required = (rp_type param = Path)\<rparr>)
                    (extractParameters parseURL url),
                ep_headers = [],
                ep_responseTime = None,
                ep_depth = depth,
                ep_source = src,
                ep_security = Some (analyzeEndpointSecurity url method)\<rparr>)"

text \<open>
  \<open>foundEndpoints\<close> is a JavaScript \<open>Map\<close>: \<open>set\<close> on a present key replaces the value
  in place, on a new key appends the entry; \<open>values()\<close> lists the values in key order
  of insertion.
\<close>

type_synonym registry = "(string \<times> Endpoint) list"

fun map_set :: "string \<Rightarrow> Endpoint \<Rightarrow> registry \<Rightarrow> registry" where
  "map_set k v [] = [(k, v)]"
| "map_set k v (e # es) = (if fst e = k then (k, v) # es else e # map_set k v es)"

definition map_values :: "registry \<Rightarrow> Endpoint list" where
  "map_values reg = map snd reg"

text \<open>
  Every write to the registry in spider-crawler.ts has one shape:
  \<^verbatim>\<open>const endpoint = this.createEndpoint(url, method, source, depth);
  if (endpoint) { this.foundEndpoints.set(endpoint.id, endpoint); }\<close>
  The response handler of \<open>fetchWithPuppeteer\<close> sets \<open>responseTime\<close> and pushes a
  \<open>content-type\<close> header on the fresh endpoint before the same \<open>set\<close>.
\<close>

definition recordEndpoint ::
  "url_parser \<Rightarrow> string \<Rightarrow> string \<Rightarrow> source \<Rightarrow> int \<Rightarrow> registry \<Rightarrow> registry" where
  "recordEndpoint parseURL url method src depth reg =
     (case createEndpoint parseURL url method src depth of
        None \<Rightarrow> reg
      | Some endpoint \<Rightarrow> map_set (ep_id endpoint) endpoint reg)"

definition recordResponse ::
  "url_parser \<Rightarrow> string \<Rightarrow> string \<Rightarrow> int \<Rightarrow> string \<Rightarrow> registry \<Rightarrow> registry" where
  "recordResponse parseURL respUrl method now contentType reg =
     (case createEndpoint parseURL respUrl method Crawl 0 of
        None \<Rightarrow> reg
      | Some endpoint \<Rightarrow>
          (let endpoint = endpoint\<lparr>ep_responseTime := Some now\<rparr>;
               endpoint = endpoint\<lparr>ep_headers := ep_headers endpoint @
                            [\<lparr>h_name = ''content-type'', h_value = contentType\<rparr>]\<rparr>
           in map_set (ep_id endpoint) endpoint reg))"

datatype registry_write =
    Record string string source int
  | RecordResponse string string int string

fun applyWrite :: "url_parser \<Rightarrow> registry_write \<Rightarrow> registry \<Rightarrow> registry" where
  "applyWrite parseURL (Record url method src depth) reg =
     recordEndpoint parseURL url method src depth reg"
| "applyWrite parseURL (RecordResponse url method now ct) reg =
     recordResponse parseURL url method now ct reg"

definition applyWrites :: "url_parser \<Rightarrow> registry_write list \<Rightarrow> registry \<Rightarrow> registry" where
  \<comment> \<open>the writes of one session, in the order in which the event loop runs them\<close>
  "applyWrites parseURL ws reg = foldl (\<lambda>r w. applyWrite parseURL w r) reg ws"

text \<open>Severities are ordered low, medium, high, critical.\<close>

fun rank :: "severity \<Rightarrow> nat" where
  "rank Low = 0"
| "rank Medium = 1"
| "rank High = 2"
| "rank Critical = 3"

definition sev_max :: "severity \<Rightarrow> severity \<Rightarrow> severity" where
  "sev_max a b = (if rank a \<le> rank b then b else a)"

definition maxSeverity :: "SecurityVulnerability list \<Rightarrow> severity" where
  \<comment> \<open>the greatest severity among the findings; low when there is none\<close>
  "maxSeverity vs = foldr (\<lambda>v acc. sev_max (v_severity v) acc) vs Low"

text \<open>
  The registry invariant: keys are pairwise different, and every entry is stored under
  the \<open>id\<close> of its endpoint, which is the identity string of its method and URL.
\<close>

definition reg_inv :: "registry \<Rightarrow> bool" where
  "reg_inv reg =
     (distinct (map fst reg)
      \<and> list_all (\<lambda>e. fst e = ep_id (snd e)
                      \<and> fst e = ep_method (snd e) @ '':'' @ ep_url (snd e)) reg)"

text \<open>
  The endpoint that a write stores (none when the URL does not parse), and the endpoint
  most recently stored under an identity string by a sequence of writes.
\<close>

fun written :: "url_parser \<Rightarrow> registry_write \<Rightarrow> Endpoint option" where
  "written parseURL (Record url method src depth) = createEndpoint parseURL url method src depth"
| "written parseURL (RecordResponse url method now ct) =
     map_option
       (\<lambda>e. e\<lparr>ep_responseTime := Some now,
               ep_headers := ep_headers e @ [\<lparr>h_name = ''content-type'', h_value = ct\<rparr>]\<rparr>)
       (createEndpoint parseURL url method Crawl 0)"

definition lastWritten :: "url_parser \<Rightarrow> string \<Rightarrow> registry_write list \<Rightarrow> Endpoint option" where
  "lastWritten parseURL k ws =
     (let es = filter (\<lambda>e. ep_id e = k) (List.map_filter (written parseURL) ws)
      in if es = [] then None else Some (last es))"

section \<open>Example environment\<close>

text \<open>
  What the platform's URL parser answers on the URLs used as examples below; every other
  string is taken as unparsable, among them \<open>https://not a domain!!\<close>, whose host
  contains a space.
\<close>

definition mkURL :: "string \<Rightarrow> string \<Rightarrow> string \<Rightarrow> string \<Rightarrow> (string \<times> string) list \<Rightarrow> URL" where
  "mkURL proto h path qs params =
     \<lparr>protocol = proto, host = h, hostname = h, pathname = path, search = qs, hash = '''',
      searchParams = params\<rparr>"

definition demoParser :: url_parser where
  "demoParser s =
     (if s = ''https://shop.test/api/users''
        then Some (mkURL ''https:'' ''shop.test'' ''/api/users'' '''' [])
      else if s = ''http://shop.test/login''
        then Some (mkURL ''http:'' ''shop.test'' ''/login'' '''' [])
      else if s = ''https://shop.test/users/{id}/:tab?page=2''
        then Some (mkURL ''https:'' ''shop.test'' ''/users/%7Bid%7D/:tab'' ''?page=2''
                    [(''page'', ''2'')])
      else if s = ''https://shop.test/api/logo.png''
        then Some (mkURL ''https:'' ''shop.test'' ''/api/logo.png'' '''' [])
      else if s = ''https://shop.test/api/report''
        then Some (mkURL ''https:'' ''shop.test'' ''/api/report'' '''' [])
      else if s = ''https://shop.test/'' \<or> s = ''https://shop.test''
        then Some (mkURL ''https:'' ''shop.test'' ''/'' '''' [])
      else None)"

section \<open>Link-following policy (spider-crawler.ts)\<close>

definition strongIndicators :: "string list" where
  "strongIndicators =
     [''/api/'', ''/rest/'', ''/graphql'', ''/oauth'', ''/auth/'', ''/token'',
      ''/login'', ''/register'', ''/users'', ''/user/'', ''/admin/'', ''/data/'',
      ''/search'', ''/upload'', ''/download'', ''/export'', ''/import'',
      ''.json'', ''.xml'', ''.yaml'', ''.yml'']"

definition versionPatterns :: "rexp list" where
  \<comment> \<open>\<open>/\/v\d+\//i, /\/version\d+\//i, /\/api\/v\d+/i\<close>\<close>
  "versionPatterns =
     [Seq (litI ''/v'') (Seq (Plus digit) (chr CHR ''/'')),
      Seq (litI ''/version'') (Seq (Plus digit) (chr CHR ''/'')),
      Seq (litI ''/api/v'') (Plus digit)]"

definition methodPatterns :: "rexp list" where
  \<comment> \<open>\<open>/\/(get|post|put|patch|delete|head|options)\//i\<close>\<close>
  "methodPatterns =
     [Seq (chr CHR ''/'')
        (Seq (alts [litI ''get'', litI ''post'', litI ''put'', litI ''patch'', litI ''delete'',
                    litI ''head'', litI ''options''])
             (chr CHR ''/''))]"

definition resourcePatterns :: "rexp list" where
  \<comment> \<open>\<open>/\/\w+\/\d+/, /\/\w+\/\{\w+\}/, /\/\w+\/:\w+/, /\?[\w=&]+/\<close>\<close>
  "resourcePatterns =
     [Seq (chr CHR ''/'') (Seq (Plus wordc) (Seq (chr CHR ''/'') (Plus digit))),
      Seq (chr CHR ''/'') (Seq (Plus wordc)
        (Seq (lit ''/{'') (Seq (Plus wordc) (chr CHR ''}'')))),
      Seq (chr CHR ''/'') (Seq (Plus wordc) (Seq (lit ''/:'') (Plus wordc))),
      Seq (chr CHR ''?'') (Plus (Atom (\<lambda>c. isWordChar c \<or> c = CHR ''='' \<or> c = CHR ''&'')))]"

definition apiKeywordRegex :: rexp where
  \<comment> \<open>\<open>/\b(api|rest|service|backend|endpoint)\b/i\<close>\<close>
  "apiKeywordRegex =
     Seq WordB
       (Seq (alts [litI ''api'', litI ''rest'', litI ''service'', litI ''backend'',
                   litI ''endpoint''])
            WordB)"

definition apiExtensions :: "string list" where
  "apiExtensions = [''.json'', ''.xml'', ''.yaml'', ''.yml'', ''.rss'', ''.atom'']"

definition statusCodeRegex :: rexp where
  \<comment> \<open>\<open>/\/(200|201|400|401|403|404|500)/\<close>\<close>
  "statusCodeRegex =
     Seq (chr CHR ''/'')
       (alts [lit ''200'', lit ''201'', lit ''400'', lit ''401'', lit ''403'', lit ''404'',
              lit ''500''])"

definition looksLikeAPI :: "string \<Rightarrow> bool" where
  "looksLikeAPI url =
     (let lowerUrl = toLowerCase url
      in if list_ex (\<lambda>indicator. str_includes lowerUrl indicator) strongIndicators then True
         else if list_ex (\<lambda>pattern. regex_test pattern url) versionPatterns then True
         else if list_ex (\<lambda>pattern. regex_test pattern url) methodPatterns then True
         else if list_ex (\<lambda>pattern. regex_test pattern url) resourcePatterns
                 \<and> regex_test apiKeywordRegex url then True
         else if list_ex (\<lambda>ext. endsWith lowerUrl ext) apiExtensions then True
         else if regex_test statusCodeRegex url then True
         else False)"

definition skipExtensions :: "string list" where
  "skipExtensions =
     [''.pdf'', ''.jpg'', ''.jpeg'', ''.png'', ''.gif'', ''.svg'', ''.ico'', ''.woff'',
      ''.woff2'', ''.ttf'', ''.mp4'', ''.mp3'', ''.zip'', ''.exe'']"

definition hasSkipExtension :: "URL \<Rightarrow> bool" where
  \<comment> \<open>\<open>skipExtensions.some(ext => path.endsWith(ext))\<close> on the lower-cased path\<close>
  "hasSkipExtension urlObj =
     list_ex (\<lambda>ext. endsWith (toLowerCase (pathname urlObj)) ext) skipExtensions"

definition isExternalAPI :: "string \<Rightarrow> URL \<Rightarrow> bool" where
  "isExternalAPI url urlObj =
     (looksLikeAPI url
      \<and> (str_includes (hostname urlObj) ''api''
         \<or> str_includes (hostname urlObj) ''rest''
         \<or> str_includes (hostname urlObj) ''service''
         \<or> str_includes url ''/api/''
         \<or> str_includes url ''/rest/''))"

definition passesExternalGate :: "ScannerConfig \<Rightarrow> string \<Rightarrow> URL \<Rightarrow> URL \<Rightarrow> bool" where
  \<comment> \<open>the first test of \<open>shouldCrawlUrl\<close> does not return false\<close>
  "passesExternalGate cfg url urlObj baseObj =
     (\<not> (\<not> includeExternalLinks cfg \<and> hostname urlObj \<noteq> hostname baseObj)
      \<or> isExternalAPI url urlObj)"

definition shouldCrawlUrl :: "ScannerConfig \<Rightarrow> url_parser \<Rightarrow> string \<Rightarrow> string \<Rightarrow> bool" where
  "shouldCrawlUrl cfg parseURL url baseUrl =
     (case parseURL url of
        None \<Rightarrow> False
      | Some urlObj \<Rightarrow>
          (case parseURL baseUrl of
             None \<Rightarrow> False
           | Some baseObj \<Rightarrow>
               if \<not> includeExternalLinks cfg \<and> hostname urlObj \<noteq> hostname baseObj
                  \<and> \<not> isExternalAPI url urlObj then False
               else if hasSkipExtension urlObj then False
               else if looksLikeAPI url then True
               else if list_ex (\<lambda>proto. startsWith url proto)
                         [''mailto:'', ''tel:'', ''javascript:'', ''ftp:''] then False
               else if hash urlObj \<noteq> [] \<and> search urlObj = [] \<and> \<not> looksLikeAPI url then False
               else True))"

definition defaultConfig :: ScannerConfig where
  \<comment> \<open>the defaults of the constructor\<close>
  "defaultConfig =
     \<lparr>maxDepth = 8, maxPages = 2000, respectRobots = False, includeExternalLinks = True,
      crawlDelay = 100,
      userAgent = ''Mozilla/5.0 (compatible; API-Endpoint-Mapper/3.0; Beast-Mode-Crawler)'',
      enableJavaScript = True, timeout = 10000\<rparr>"

section \<open>The crawler and its collaborators (spider-crawler.ts)\<close>

datatype stage = Initializing | Crawling | Analyzing | Processing | Completed | ErrorStage

record ScanProgress =
  stage :: stage
  progress :: rat
  currentUrl :: "string option"
  pagesScanned :: nat
  endpointsFound :: nat
  message :: string

record CrawlError =
  ce_url :: string
  ce_error :: string
  ce_timestamp :: int

text \<open>
  A thrown value is an \<open>Error\<close> with its message or something else; the handlers
  read it as \<open>error instanceof Error ? error.message : 'Unknown error'\<close>.
\<close>

datatype exn = Error string | Thrown

fun errorMessage :: "exn \<Rightarrow> string" where
  "errorMessage (Error m) = m"
| "errorMessage Thrown = ''Unknown error''"

datatype browser = Browser

datatype request = HttpGet string | PageGoto string

text \<open>
  The collaborators of one session: the URL parser, the outcome of \<open>puppeteer.launch\<close>,
  the outcome of loading a page in the browser (from \<open>newPage\<close> to \<open>page.content()\<close>
  and \<open>page.close()\<close>), the outcome of \<open>axios.get\<close> (the response body), the
  links that \<open>extractLinks\<close> reads out of a page's content with the markup parser
  (resolved against the page's URL, without repetition), and the clock.
  \<open>browser.close()\<close> is taken to succeed. The registry writes made by the
  interception handlers while a page loads do not bear on the outcome of the fetch and
  are left out of \<open>fetchWithPuppeteer\<close>.
\<close>

record environment =
  newURL :: url_parser
  launch :: "exn + browser"
  pageLoad :: "string \<Rightarrow> exn + string"
  httpGet :: "string \<Rightarrow> exn + string"
  extractLinks :: "string \<Rightarrow> string \<Rightarrow> string list"
  clock :: int

datatype task_state = AwaitRateLimiter | AwaitFetch | Settled

text \<open>
  The fields of \<open>SpiderCrawler\<close>. \<open>visitedUrls\<close> is a \<open>Set\<close>, kept as a list
  without repetition in insertion order. \<open>onProgress\<close> tells whether a callback is
  installed and \<open>delivered\<close> lists what it has been called with; \<open>requests\<close> lists the
  requests sent to the target. An entry of \<open>activeCrawls\<close> is a \<open>crawlSingle\<close> call
  with the point at which it is suspended.
\<close>

record crawler =
  config :: ScannerConfig
  browser :: "browser option"
  visitedUrls :: "string list"
  foundEndpoints :: registry
  errors :: "CrawlError list"
  crawlQueue :: "string list"
  activeCrawls :: "(string \<times> task_state) list"
  onProgress :: bool
  delivered :: "ScanProgress list"
  requests :: "request list"

definition newCrawler :: "ScannerConfig \<Rightarrow> crawler" where
  "newCrawler cfg =
     \<lparr>config = cfg, browser = None, visitedUrls = [], foundEndpoints = [], errors = [],
      crawlQueue = [], activeCrawls = [], onProgress = False, delivered = [], requests = []\<rparr>"

definition normalizeUrl :: "url_parser \<Rightarrow> string \<Rightarrow> string option" where
  "normalizeUrl parse url =
     (let url = (if \<not> startsWith url ''http://'' \<and> \<not> startsWith url ''https://''
                 then ''https://'' @ url else url)
      in case parse url of
           None \<Rightarrow> None
         | Some urlObj \<Rightarrow> Some (protocol urlObj @ ''//'' @ host urlObj))"

definition updateProgress :: "crawler \<Rightarrow> ScanProgress \<Rightarrow> crawler" where
  "updateProgress c p = (if onProgress c then c\<lparr>delivered := delivered c @ [p]\<rparr> else c)"

definition initialize :: "environment \<Rightarrow> crawler \<Rightarrow> crawler" where
  "initialize env c =
     (if enableJavaScript (config c) \<and> browser c = None
      then (case launch env of
              Inr b \<Rightarrow> c\<lparr>browser := Some b\<rparr>
            | Inl error \<Rightarrow> c\<lparr>config := (config c)\<lparr>enableJavaScript := False\<rparr>\<rparr>)
      else c)"

definition cleanup :: "crawler \<Rightarrow> crawler" where
  "cleanup c = (if browser c \<noteq> None then c\<lparr>browser := None\<rparr> else c)"

definition fetchWithPuppeteer :: "environment \<Rightarrow> crawler \<Rightarrow> string \<Rightarrow> (exn + string) \<times> crawler" where
  "fetchWithPuppeteer env c url =
     (if browser c = None then (Inl (Error ''Browser not initialized''), c)
      else (pageLoad env url, c\<lparr>requests := requests c @ [PageGoto url]\<rparr>))"

definition fetchWithAxios :: "environment \<Rightarrow> crawler \<Rightarrow> string \<Rightarrow> (exn + string) \<times> crawler" where
  "fetchWithAxios env c url = (httpGet env url, c\<lparr>requests := requests c @ [HttpGet url]\<rparr>)"

text \<open>
  \<open>fetchPageContent\<close> returns the content or \<open>null\<close>; the left summand of its result is
  an exception leaving the function.
\<close>

definition fetchPageContent ::
  "environment \<Rightarrow> crawler \<Rightarrow> string \<Rightarrow> (exn + string option) \<times> crawler" where
  "fetchPageContent env c url =
     (let (r, c) =
            (if enableJavaScript (config c) \<and> browser c \<noteq> None
             then (case fetchWithPuppeteer env c url of
                     (Inr content, c) \<Rightarrow> (Inr content, c)
                   | (Inl puppeteerError, c) \<Rightarrow> fetchWithAxios env c url)
             else fetchWithAxios env c url)
      in case r of
           Inr content \<Rightarrow> (Inr (Some content), c)
         | Inl error \<Rightarrow>
             (Inr None,
              c\<lparr>errors := errors c @
                   [\<lparr>ce_url = url, ce_error = ''Failed to fetch: '' @ errorMessage error,
                     ce_timestamp = clock env\<rparr>]\<rparr>))"

text \<open>
  \<open>crawl\<close>. What follows the validation of the domain (the robots check, the discovery
  strategies, the prediction, the parallel crawl, the script analysis and the assembly of
  the result) is the parameter \<open>stages\<close>: it gets the base URL and the crawler and
  returns the result or the exception it throws.
\<close>

definition crawl ::
  "environment \<Rightarrow> (string \<Rightarrow> crawler \<Rightarrow> (exn + 'r) \<times> crawler) \<Rightarrow> string \<Rightarrow> bool \<Rightarrow> crawler
     \<Rightarrow> (exn + 'r) \<times> crawler" where
  "crawl env stages domain callback c =
     (let c = c\<lparr>onProgress := callback\<rparr>;
          (r, c) =
            (let c = initialize env c;
                 c = updateProgress c
                       \<lparr>stage = Initializing, progress = 0, currentUrl = None,
                        pagesScanned = 0, endpointsFound = 0,
                        message = ''Initializing crawler...''\<rparr>
             in case normalizeUrl (newURL env) domain of
                  None \<Rightarrow> (Inl (Error ''Invalid domain provided''), c)
                | Some baseUrl \<Rightarrow>
                    if baseUrl = [] then (Inl (Error ''Invalid domain provided''), c)
                    else stages baseUrl c);
          c = (case r of
                 Inl error \<Rightarrow>
                   updateProgress c
                     \<lparr>stage = ErrorStage, progress = 0, currentUrl = None,
                      pagesScanned = length (visitedUrls c),
                      endpointsFound = length (foundEndpoints c),
                      message = ''Error: '' @ errorMessage error\<rparr>
               | Inr res \<Rightarrow> c)
      in (r, cleanup c))"

definition demoEnv :: environment where
  \<comment> \<open>a session in which the browser cannot be started and a page load would fail\<close>
  "demoEnv =
     \<lparr>newURL = demoParser, launch = Inl (Error ''Failed to launch the browser process''),
      pageLoad = (\<lambda>url. Inl (Error ''Navigation timeout of 10000 ms exceeded'')),
      httpGet = (\<lambda>url. Inr ''<html></html>''), extractLinks = (\<lambda>content baseUrl. []),
      clock = 0\<rparr>"

text \<open>What the static client hands back for a URL, as \<open>fetchPageContent\<close> returns it.\<close>

definition staticResult :: "environment \<Rightarrow> string \<Rightarrow> exn + string option" where
  "staticResult env url = (case httpGet env url of Inr content \<Rightarrow> Inr (Some content) | Inl error \<Rightarrow> Inr None)"

section \<open>The parallel crawl loop (spider-crawler.ts)\<close>

text \<open>
  JavaScript runs \<open>crawlParallel\<close> and the \<open>crawlSingle\<close> calls it starts on one event
  loop: a piece of code runs without interruption up to its next \<open>await\<close>, and the
  suspended computations resume one at a time. The model has one step per resumption.
  A \<open>crawlSingle\<close> call is suspended at \<open>await this.rateLimiter.consume(...)\<close>
  (\<open>AwaitRateLimiter\<close>), at \<open>await this.fetchPageContent(url)\<close> (\<open>AwaitFetch\<close>; the
  fetch and the processing of the page are one step, and the registry writes of the
  endpoint extraction are left out), or has returned with the callback of \<open>.finally\<close>
  still to run (\<open>Settled\<close>). \<open>crawlParallel\<close> is suspended at \<open>Promise.race\<close>, at
  \<open>Promise.all\<close>, or has returned.
\<close>

definition maxConcurrentCrawls :: nat where
  "maxConcurrentCrawls = 16"

definition set_add :: "string \<Rightarrow> string list \<Rightarrow> string list" where
  \<comment> \<open>\<open>Set.prototype.add\<close>\<close>
  "set_add x xs = (if x \<in> set xs then xs else xs @ [x])"

definition crawlSingle_enter :: "crawler \<Rightarrow> string \<Rightarrow> task_state" where
  \<comment> \<open>\<open>crawlSingle(url)\<close> from its call to its first \<open>await\<close>\<close>
  "crawlSingle_enter c url =
     (if url \<in> set (visitedUrls c) \<or> int (length (visitedUrls c)) \<ge> maxPages (config c)
      then Settled else AwaitRateLimiter)"

fun admit ::
  "crawler \<Rightarrow> (string \<times> task_state) list \<Rightarrow> string list
     \<Rightarrow> (string \<times> task_state) list \<times> string list" where
  \<comment> \<open>the inner \<open>while\<close> of \<open>crawlParallel\<close>, on the active set and the queue; nothing
      in it awaits, so \<open>visitedUrls\<close> stays as it is\<close>
  "admit c active [] = (active, [])"
| "admit c active (url # queue) =
     (if length active < maxConcurrentCrawls
      then (if url \<noteq> [] \<and> url \<notin> set (visitedUrls c)
            then admit c (active @ [(url, crawlSingle_enter c url)]) queue
            else admit c active queue)
      else (active, url # queue))"

datatype loop_state = AwaitRace bool | AwaitAll | Returned

text \<open>
  \<open>AwaitRace won\<close>: suspended at \<open>Promise.race(this.activeCrawls)\<close>; \<open>won\<close> tells
  whether one of the raced promises has settled, which is when the callback of its
  \<open>.finally\<close> has removed it from \<open>activeCrawls\<close>.
\<close>

lemma admit_none_active: "fst (admit c active queue) = [] \<Longrightarrow> snd (admit c active queue) = []"
  by (induction queue arbitrary: active) (auto simp: maxConcurrentCrawls_def split: if_splits)

function crawlParallel_resume :: "crawler \<Rightarrow> loop_state \<times> crawler" where
  \<comment> \<open>\<open>crawlParallel\<close> from the test of its outer \<open>while\<close> to its next \<open>await\<close>\<close>
  "crawlParallel_resume c =
     (if crawlQueue c \<noteq> [] \<and> int (length (visitedUrls c)) < maxPages (config c)
      then (let admitted = admit c (activeCrawls c) (crawlQueue c);
                c' = c\<lparr>activeCrawls := fst admitted, crawlQueue := snd admitted\<rparr>
            in if fst admitted \<noteq> [] then (AwaitRace False, c')
               else crawlParallel_resume c')
      else (AwaitAll, c))"
  by pat_completeness auto
termination
proof (relation "measure (\<lambda>c. length (crawlQueue c))")
  show "wf (measure (\<lambda>c. length (crawlQueue c)))" by simp
next
  fix c :: crawler and admitted c'
  assume q: "crawlQueue c \<noteq> [] \<and> int (length (visitedUrls c)) < maxPages (config c)"
    and a: "admitted = admit c (activeCrawls c) (crawlQueue c)"
    and c': "c' = c\<lparr>activeCrawls := fst admitted, crawlQueue := snd admitted\<rparr>"
    and e: "\<not> fst admitted \<noteq> []"
  from a e have "snd admitted = []" by (simp add: admit_none_active)
  with q c' show "(c', c) \<in> measure (\<lambda>c. length (crawlQueue c))" by simp
qed

declare crawlParallel_resume.simps [simp del]

datatype event =
    RateLimiterGrants nat
  | RateLimiterRejects nat exn
  | FetchCompletes nat
  | FinallyRuns nat
  | LoopResumes

text \<open>
  The number in an event is the position of the \<open>crawlSingle\<close> call in \<open>activeCrawls\<close>.
  A step that the state does not allow is \<open>None\<close>.
\<close>

definition crawlSingle_granted :: "crawler \<Rightarrow> string \<Rightarrow> crawler" where
  \<comment> \<open>from the rate limiter's grant to \<open>await this.fetchPageContent(url)\<close>\<close>
  "crawlSingle_granted c url =
     (let c = c\<lparr>visitedUrls := set_add url (visitedUrls c)\<rparr>
      in updateProgress c
           \<lparr>stage = Crawling,
            progress = 10 + (of_nat (length (visitedUrls c)) / of_int (maxPages (config c))) * 70,
            currentUrl = Some url,
            pagesScanned = length (visitedUrls c),
            endpointsFound = length (foundEndpoints c),
            message = ''Beast crawling: '' @ url\<rparr>)"

definition crawlSingle_failed :: "environment \<Rightarrow> crawler \<Rightarrow> string \<Rightarrow> exn \<Rightarrow> crawler" where
  \<comment> \<open>the \<open>catch\<close> of \<open>crawlSingle\<close>\<close>
  "crawlSingle_failed env c url error =
     c\<lparr>errors := errors c @
          [\<lparr>ce_url = url, ce_error = errorMessage error, ce_timestamp = clock env\<rparr>]\<rparr>"

definition crawlSingle_fetched :: "environment \<Rightarrow> crawler \<Rightarrow> string \<Rightarrow> crawler" where
  \<comment> \<open>the fetch of the page and what follows it\<close>
  "crawlSingle_fetched env c url =
     (case fetchPageContent env c url of
        (Inl error, c) \<Rightarrow> crawlSingle_failed env c url error
      | (Inr None, c) \<Rightarrow> c
      | (Inr (Some content), c) \<Rightarrow>
          if content = [] then c
          else c\<lparr>crawlQueue := crawlQueue c @
                    filter (\<lambda>link. shouldCrawlUrl (config c) (newURL env) link url
                                   \<and> link \<notin> set (visitedUrls c))
                      (extractLinks env content url)\<rparr>)"

definition setTask :: "nat \<Rightarrow> task_state \<Rightarrow> crawler \<Rightarrow> crawler" where
  "setTask i st c = c\<lparr>activeCrawls := (activeCrawls c)[i := (fst (activeCrawls c ! i), st)]\<rparr>"

definition taskAt :: "crawler \<Rightarrow> nat \<Rightarrow> (string \<times> task_state) option" where
  "taskAt c i = (if i < length (activeCrawls c) then Some (activeCrawls c ! i) else None)"

fun step :: "environment \<Rightarrow> event \<Rightarrow> loop_state \<times> crawler \<Rightarrow> (loop_state \<times> crawler) option" where
  "step env (RateLimiterGrants i) (l, c) =
     (case taskAt c i of
        Some (url, AwaitRateLimiter) \<Rightarrow> Some (l, setTask i AwaitFetch (crawlSingle_granted c url))
      | _ \<Rightarrow> None)"
| "step env (RateLimiterRejects i error) (l, c) =
     (case taskAt c i of
        Some (url, AwaitRateLimiter) \<Rightarrow> Some (l, setTask i Settled (crawlSingle_failed env c url error))
      | _ \<Rightarrow> None)"
| "step env (FetchCompletes i) (l, c) =
     (case taskAt c i of
        Some (url, AwaitFetch) \<Rightarrow> Some (l, setTask i Settled (crawlSingle_fetched env c url))
      | _ \<Rightarrow> None)"
| "step env (FinallyRuns i) (l, c) =
     (case taskAt c i of
        Some (url, Settled) \<Rightarrow>
          Some (case l of AwaitRace won \<Rightarrow> AwaitRace True | _ \<Rightarrow> l,
                c\<lparr>activeCrawls := take i (activeCrawls c) @ drop (Suc i) (activeCrawls c)\<rparr>)
      | _ \<Rightarrow> None)"
| "step env LoopResumes (l, c) =
     (case l of
        AwaitRace won \<Rightarrow> if won then Some (crawlParallel_resume c) else None
      | AwaitAll \<Rightarrow> if activeCrawls c = [] then Some (Returned, c) else None
      | Returned \<Rightarrow> None)"

fun run_events :: "environment \<Rightarrow> event list \<Rightarrow> loop_state \<times> crawler \<Rightarrow> (loop_state \<times> crawler) option" where
  "run_events env [] s = Some s"
| "run_events env (e # es) s =
     (case step env e s of None \<Rightarrow> None | Some s' \<Rightarrow> run_events env es s')"

definition crawlParallel :: "environment \<Rightarrow> event list \<Rightarrow> crawler \<Rightarrow> (loop_state \<times> crawler) option" where
  \<comment> \<open>\<open>crawlParallel()\<close> is called and the event loop then takes the given steps\<close>
  "crawlParallel env es c = run_events env es (crawlParallel_resume c)"

definition twoQueued :: crawler where
  \<comment> \<open>a session with a budget of one page at the call of \<open>crawlParallel\<close>: the browser
      could not be started, a discovery strategy has queued one URL and \<open>crawl\<close> the
      base URL\<close>
  "twoQueued =
     (initialize demoEnv (newCrawler (defaultConfig\<lparr>maxPages := 1\<rparr>)))
       \<lparr>crawlQueue := [''https://shop.test/api/users'', ''https://shop.test'']\<rparr>"

text \<open>
  For the budget: the calls that have passed the test of \<open>crawlSingle\<close> and not yet added
  their URL, and the bound that the loop keeps on them together with the visited set.
\<close>

definition pending :: "(string \<times> task_state) list \<Rightarrow> nat" where
  "pending active = length (filter (\<lambda>t. snd t = AwaitRateLimiter) active)"

definition budget_inv :: "int \<Rightarrow> crawler \<Rightarrow> bool" where
  "budget_inv M c =
     (maxPages (config c) = M
      \<and> length (activeCrawls c) \<le> maxConcurrentCrawls
      \<and> int (length (visitedUrls c)) + int (pending (activeCrawls c)) \<le> max 0 (M + 15))"

section \<open>Theorems\<close>

subsection \<open>Confidence scoring\<close>

lemma calculateConfidence_chain:
  "calculateConfidence p m =
     (if m = 0 then 0 else confidence_chain (\<lambda>x. x) f64 (1 < m) (5 < m) (10 < m) (2 < p))"
  by (simp add: calculateConfidence_def confidence_chain_def Let_def)

lemma wasm_calculateConfidence_chain:
  "wasm_calculateConfidence p m =
     (if sint m = 0 then 0
      else confidence_chain f32 f32 (1 < sint m) (5 < sint m) (10 < sint m) (2 < sint p))"
  by (simp add: wasm_calculateConfidence_def confidence_chain_def Let_def signed_eq_0_iff)

lemma PatternMatcher_calculateConfidence_chain:
  "PatternMatcher_calculateConfidence src ms =
     pattern_chain (str_includes src ''api'') (str_includes src ''rest'')
       (str_includes src ''graphql'') (1 < length ms) (5 < length ms)"
  by (simp add: PatternMatcher_calculateConfidence_def pattern_chain_def Let_def)

lemma f64_roundings:
  "f64 (1 / 10) = 3602879701896397 / 36028797018963968"
  "f64 (1 / 5) = 3602879701896397 / 18014398509481984"
  "f64 (3 / 10) = 5404319552844595 / 18014398509481984"
  "f64 (1 / 2) = 1 / 2"
  "f64 (21617278211378381 / 36028797018963968) = 5404319552844595 / 9007199254740992"
  "f64 (25220157913274777 / 36028797018963968) = 3152519739159347 / 4503599627370496"
  "f64 (12610078956637389 / 18014398509481984) = 3152519739159347 / 4503599627370496"
  "f64 (28823037615171173 / 36028797018963968) = 7205759403792793 / 9007199254740992"
  "f64 (14411518807585587 / 18014398509481984) = 3602879701896397 / 4503599627370496"
  "f64 (32425917317067569 / 36028797018963968) = 2026619832316723 / 2251799813685248"
  "f64 (16212958658533785 / 18014398509481984) = 2026619832316723 / 2251799813685248"
  "f64 (32425917317067573 / 36028797018963968) = 8106479329266893 / 9007199254740992"
  "f64 (18014398509481983 / 18014398509481984) = 1"
  "f64 (36028797018963969 / 36028797018963968) = 1"
  "f64 (18014398509481985 / 18014398509481984) = 1"
  "f64 (39631676720860365 / 36028797018963968) = 2476979795053773 / 2251799813685248"
  "f64 (19815838360430183 / 18014398509481984) = 2476979795053773 / 2251799813685248"
  "f64 (43234556422756765 / 36028797018963968) = 1351079888211149 / 1125899906842624"
  "f64 (23418718062326579 / 18014398509481984) = 5854679515581645 / 4503599627370496"
  "f64 (46837436124653165 / 36028797018963968) = 2927339757790823 / 2251799813685248"
  "f64 (50440315826549557 / 36028797018963968) = 6305039478318695 / 4503599627370496"
  "f64 (54043195528445957 / 36028797018963968) = 6755399441055745 / 4503599627370496"
  by code_simp+

lemma f32_roundings:
  "f32 (3602879701896397 / 36028797018963968) = 13421773 / 134217728"
  "f32 (3602879701896397 / 18014398509481984) = 13421773 / 67108864"
  "f32 (5404319552844595 / 18014398509481984) = 5033165 / 16777216"
  "f32 (5033165 / 16777216) = 5033165 / 16777216"
  "f32 (1 / 2) = 1 / 2"
  "f32 (33554433 / 67108864) = 1 / 2"
  "f32 (11744051 / 16777216) = 11744051 / 16777216"
  "f32 (46976205 / 67108864) = 11744051 / 16777216"
  "f32 (107374181 / 134217728) = 13421773 / 16777216"
  "f32 (13421773 / 16777216) = 13421773 / 16777216"
  "f32 (7549747 / 8388608) = 7549747 / 8388608"
  "f32 (60397977 / 67108864) = 7549747 / 8388608"
  "f32 (1) = 1"
  "f32 (67108865 / 67108864) = 1"
  by code_simp+

lemma confidence_chain_f64:
  "confidence_chain (\<lambda>x. x) f64 False False False False = 5404319552844595 / 18014398509481984"
  "confidence_chain (\<lambda>x. x) f64 True False False False = 1 / 2"
  "confidence_chain (\<lambda>x. x) f64 True True False False = 3152519739159347 / 4503599627370496"
  "confidence_chain (\<lambda>x. x) f64 True True True False = 7205759403792793 / 9007199254740992"
  "confidence_chain (\<lambda>x. x) f64 False False False True = 1 / 2"
  "confidence_chain (\<lambda>x. x) f64 True False False True = 3152519739159347 / 4503599627370496"
  "confidence_chain (\<lambda>x. x) f64 True True False True = 2026619832316723 / 2251799813685248"
  "confidence_chain (\<lambda>x. x) f64 True True True True = 1"
  by (simp_all add: confidence_chain_def f64_roundings)

lemma confidence_chain_f32:
  "confidence_chain f32 f32 False False False False = 5033165 / 16777216"
  "confidence_chain f32 f32 True False False False = 1 / 2"
  "confidence_chain f32 f32 True True False False = 11744051 / 16777216"
  "confidence_chain f32 f32 True True True False = 13421773 / 16777216"
  "confidence_chain f32 f32 False False False True = 1 / 2"
  "confidence_chain f32 f32 True False False True = 11744051 / 16777216"
  "confidence_chain f32 f32 True True False True = 7549747 / 8388608"
  "confidence_chain f32 f32 True True True True = 1"
  by (simp_all add: confidence_chain_def f64_roundings f32_roundings)

lemma pattern_chain_values:
  "pattern_chain False False False False False = 1 / 2"
  "pattern_chain False False False True False = 5404319552844595 / 9007199254740992"
  "pattern_chain False False False True True = 3152519739159347 / 4503599627370496"
  "pattern_chain False False True False False = 3602879701896397 / 4503599627370496"
  "pattern_chain False False True True False = 8106479329266893 / 9007199254740992"
  "pattern_chain False False True True True = 1"
  "pattern_chain False True False False False = 3152519739159347 / 4503599627370496"
  "pattern_chain False True False True False = 7205759403792793 / 9007199254740992"
  "pattern_chain False True False True True = 2026619832316723 / 2251799813685248"
  "pattern_chain False True True False False = 1"
  "pattern_chain False True True True False = 1"
  "pattern_chain False True True True True = 1"
  "pattern_chain True False False False False = 3602879701896397 / 4503599627370496"
  "pattern_chain True False False True False = 8106479329266893 / 9007199254740992"
  "pattern_chain True False False True True = 1"
  "pattern_chain True False True False False = 1"
  "pattern_chain True False True True False = 1"
  "pattern_chain True False True True True = 1"
  "pattern_chain True True False False False = 1"
  "pattern_chain True True False True False = 1"
  "pattern_chain True True False True True = 1"
  "pattern_chain True True True False False = 1"
  "pattern_chain True True True True False = 1"
  "pattern_chain True True True True True = 1"
  by (simp_all add: pattern_chain_def f64_roundings)

lemma chain_values_int:
  assumes "chain False False False False = a0" "chain True False False False = a1"
    "chain True True False False = a2" "chain True True True False = a3"
    "chain False False False True = b0" "chain True False False True = b1"
    "chain True True False True = b2" "chain True True True True = b3"
  shows "(if m = 0 then 0 else chain (1 < m) (5 < m) (10 < m) (2 < p))
           = confidence_values (a0, a1, a2, a3) (b0, b1, b2, b3) p (m::int)"
  using assms by (auto simp: confidence_values_def)

lemma calculateConfidence_values:
  "calculateConfidence p m =
     confidence_values
       (5404319552844595 / 18014398509481984, 1 / 2, 3152519739159347 / 4503599627370496,
        7205759403792793 / 9007199254740992)
       (1 / 2, 3152519739159347 / 4503599627370496, 2026619832316723 / 2251799813685248, 1)
       p m"
  unfolding calculateConfidence_chain
  by (rule chain_values_int) (rule confidence_chain_f64)+

lemma wasm_calculateConfidence_values:
  "wasm_calculateConfidence pw mw =
     confidence_values
       (5033165 / 16777216, 1 / 2, 11744051 / 16777216, 13421773 / 16777216)
       (1 / 2, 11744051 / 16777216, 7549747 / 8388608, 1)
       (sint pw) (sint mw)"
  unfolding wasm_calculateConfidence_chain
  by (rule chain_values_int) (rule confidence_chain_f32)+

lemma calculateConfidence_close:
  "\<bar>calculateConfidence p m - confidence_spec p m\<bar> \<le> 1 / 2 ^ 53"
  by (simp add: calculateConfidence_values confidence_values_def confidence_spec_def)

lemma wasm_calculateConfidence_close:
  "\<bar>wasm_calculateConfidence pw mw - confidence_spec (sint pw) (sint mw)\<bar> \<le> 1 / 2 ^ 25"
  by (simp add: wasm_calculateConfidence_values confidence_values_def confidence_spec_def)

lemma pattern_chain_close:
  "(b5 \<longrightarrow> b1) \<Longrightarrow>
   \<bar>pattern_chain a r g b1 b5 - pattern_exact a r g b1 b5\<bar> \<le> 1 / 2 ^ 53
   \<and> 1 / 2 \<le> pattern_chain a r g b1 b5 \<and> pattern_chain a r g b1 b5 \<le> 1"
  by (cases a; cases r; cases g; cases b1; cases b5)
     (simp_all add: pattern_chain_values pattern_exact_def)


lemma PatternMatcher_calculateConfidence_close:
  "\<bar>PatternMatcher_calculateConfidence src ms
      - pattern_exact (str_includes src ''api'') (str_includes src ''rest'')
          (str_includes src ''graphql'') (1 < length ms) (5 < length ms)\<bar> \<le> 1 / 2 ^ 53
   \<and> 1 / 2 \<le> PatternMatcher_calculateConfidence src ms
   \<and> PatternMatcher_calculateConfidence src ms \<le> 1"
  unfolding PatternMatcher_calculateConfidence_chain
  by (rule pattern_chain_close) simp

text \<open>
  C4 says that the confidence function of the pattern matcher returns 0.0 for no match
  and otherwise the decimal sum of the base 0.3 and the bonuses, clamped to [0, 1]. As
  stated it fails on two counts. The sums are taken in doubles: at three patterns and
  six matches \<open>calculateConfidence\<close> returns 0.8999999999999999, not 0.9. And the
  scoring that the pattern matcher calls, \<open>PatternMatcher.calculateConfidence\<close>,
  follows another rule: one match of the pattern \<open>/\/graphql/g\<close> scores 0.8, where
  the stated formula gives 0.3 or 0.5 according to the pattern count.
\<close>

theorem calculateConfidence_decimal_counterexample:
  "calculateConfidence 3 6 = 2026619832316723 / 2251799813685248
   \<and> confidence_spec 3 6 = 9 / 10
   \<and> calculateConfidence 3 6 \<noteq> confidence_spec 3 6
   \<and> PatternMatcher_calculateConfidence (CHR 0x5C # ''/graphql'') [''https://shop.test/graphql'']
       = 3602879701896397 / 4503599627370496
   \<and> confidence_spec 0 1 = 3 / 10
   \<and> confidence_spec 3 1 = 1 / 2"
proof -
  have g: "PatternMatcher_calculateConfidence (CHR 0x5C # ''/graphql'') [''https://shop.test/graphql'']
             = pattern_chain False False True False False"
    by (simp add: PatternMatcher_calculateConfidence_chain startsWith_def)
  show ?thesis
    by (simp add: calculateConfidence_values confidence_values_def confidence_spec_def
        g pattern_chain_values)
qed

text \<open>
  C4, amended: \<open>WASMPatternMatcherImpl.calculateConfidence\<close> returns 0.0 for no match and
  otherwise the sum, taken in doubles in the order of the source, of the base 0.3 and
  the bonuses 0.2 (more than one match), 0.2 (more than five), 0.1 (more than ten) and
  0.2 (more than two patterns), then the minimum with 1.0: the doubles 0.3, 0.5, 0.7,
  0.7999999999999999 without the pattern bonus and 0.5, 0.7, 0.8999999999999999, 1.0
  with it, each within \<open>2 ^ -53\<close> of the exact decimal formula. The AssemblyScript twin
  does the same in single precision, within \<open>2 ^ -25\<close>. The scoring that the pattern
  matcher calls, \<open>PatternMatcher.calculateConfidence(pattern, matches)\<close>, is within
  \<open>2 ^ -53\<close> of another sum: the base 0.5, plus 0.3, 0.2 and 0.3 when the pattern's
  source contains api, rest and graphql, plus 0.1 for more than one match and 0.1 for
  more than five, clamped at 1.0; it is never below 0.5.
\<close>

theorem calculateConfidence_double_values:
  "calculateConfidence p m =
     confidence_values
       (5404319552844595 / 18014398509481984, 1 / 2, 3152519739159347 / 4503599627370496,
        7205759403792793 / 9007199254740992)
       (1 / 2, 3152519739159347 / 4503599627370496, 2026619832316723 / 2251799813685248, 1)
       p m
   \<and> \<bar>calculateConfidence p m - confidence_spec p m\<bar> \<le> 1 / 2 ^ 53
   \<and> wasm_calculateConfidence pw mw =
     confidence_values
       (5033165 / 16777216, 1 / 2, 11744051 / 16777216, 13421773 / 16777216)
       (1 / 2, 11744051 / 16777216, 7549747 / 8388608, 1)
       (sint pw) (sint mw)
   \<and> \<bar>wasm_calculateConfidence pw mw - confidence_spec (sint pw) (sint mw)\<bar> \<le> 1 / 2 ^ 25
   \<and> \<bar>PatternMatcher_calculateConfidence src ms
        - pattern_exact (str_includes src ''api'') (str_includes src ''rest'')
            (str_includes src ''graphql'') (1 < length ms) (5 < length ms)\<bar> \<le> 1 / 2 ^ 53
   \<and> 1 / 2 \<le> PatternMatcher_calculateConfidence src ms
   \<and> PatternMatcher_calculateConfidence src ms \<le> 1"
  using calculateConfidence_values [of p m] calculateConfidence_close [of p m]
    wasm_calculateConfidence_values [of pw mw] wasm_calculateConfidence_close [of pw mw]
    PatternMatcher_calculateConfidence_close [of src ms]
  by blast

text \<open>
  C5 says that for a fixed pattern count the confidence never decreases as the match
  count grows, for all inputs. As stated it fails below zero: at \<open>matchCount = -1\<close> the
  function returns 0.3, above its value 0.0 at \<open>matchCount = 0\<close>.
\<close>

theorem calculateConfidence_monotone_counterexample:
  "calculateConfidence 0 (- 1) = 5404319552844595 / 18014398509481984
   \<and> calculateConfidence 0 0 = 0
   \<and> \<not> calculateConfidence 0 (- 1) \<le> calculateConfidence 0 0"
  by (simp add: calculateConfidence_values confidence_values_def)

lemma confidence_values_mono:
  assumes "0 \<le> a0" "a0 \<le> a1" "a1 \<le> a2" "a2 \<le> a3" "0 \<le> b0" "b0 \<le> b1" "b1 \<le> b2" "b2 \<le> b3"
    and "0 \<le> m1" "m1 \<le> m2"
  shows "confidence_values (a0, a1, a2, a3) (b0, b1, b2, b3) p m1
           \<le> confidence_values (a0, a1, a2, a3) (b0, b1, b2, b3) p m2"
  using assms by (auto simp: confidence_values_def)

lemma confidence_values_range:
  assumes "0 \<le> a0" "a0 \<le> a1" "a1 \<le> a2" "a2 \<le> a3" "a3 \<le> 1"
    "0 \<le> b0" "b0 \<le> b1" "b1 \<le> b2" "b2 \<le> b3" "b3 \<le> 1"
  shows "0 \<le> confidence_values (a0, a1, a2, a3) (b0, b1, b2, b3) p m
         \<and> confidence_values (a0, a1, a2, a3) (b0, b1, b2, b3) p m \<le> 1"
  using assms by (auto simp: confidence_values_def)

text \<open>
  C5, amended: for a fixed pattern count the confidence does not decrease as the match
  count grows from 0 upwards; for all inputs it lies in [0, 1]; and it is 0.0 for no
  match. The same holds of the AssemblyScript twin on the signed reading of its
  arguments.
\<close>

theorem calculateConfidence_monotone_bounded:
  "(0 \<le> m1 \<and> m1 \<le> m2 \<longrightarrow> calculateConfidence p m1 \<le> calculateConfidence p m2)
   \<and> 0 \<le> calculateConfidence p m \<and> calculateConfidence p m \<le> 1
   \<and> calculateConfidence p 0 = 0
   \<and> (0 \<le> sint w1 \<and> sint w1 \<le> sint w2
        \<longrightarrow> wasm_calculateConfidence pw w1 \<le> wasm_calculateConfidence pw w2)
   \<and> 0 \<le> wasm_calculateConfidence pw w \<and> wasm_calculateConfidence pw w \<le> 1
   \<and> wasm_calculateConfidence pw 0 = 0"
proof -
  have a: "calculateConfidence p m1 \<le> calculateConfidence p m2" if "0 \<le> m1" "m1 \<le> m2"
    unfolding calculateConfidence_values by (rule confidence_values_mono) (simp_all add: that)
  have b: "0 \<le> calculateConfidence p m \<and> calculateConfidence p m \<le> 1"
    unfolding calculateConfidence_values by (rule confidence_values_range) simp_all
  have c: "calculateConfidence p 0 = 0" by (simp add: calculateConfidence_def)
  have d: "wasm_calculateConfidence pw w1 \<le> wasm_calculateConfidence pw w2"
    if "0 \<le> sint w1" "sint w1 \<le> sint w2"
    unfolding wasm_calculateConfidence_values by (rule confidence_values_mono) (simp_all add: that)
  have e: "0 \<le> wasm_calculateConfidence pw w \<and> wasm_calculateConfidence pw w \<le> 1"
    unfolding wasm_calculateConfidence_values by (rule confidence_values_range) simp_all
  have f: "wasm_calculateConfidence pw 0 = 0" by (simp add: wasm_calculateConfidence_def)
  from a b c d e f show ?thesis by blast
qed

theorem calculateConfidence_monotone_bounded_witness:
  "(0::int) \<le> 1 \<and> (1::int) \<le> 6 \<and> calculateConfidence 3 1 \<le> calculateConfidence 3 6
   \<and> calculateConfidence 3 1 = 1 / 2
   \<and> calculateConfidence 3 6 = 2026619832316723 / 2251799813685248
   \<and> wasm_calculateConfidence 3 1 \<le> wasm_calculateConfidence 3 6
   \<and> wasm_calculateConfidence 3 6 = 7549747 / 8388608"
proof -
  have v: "calculateConfidence 3 1 = 1 / 2"
    "calculateConfidence 3 6 = 2026619832316723 / 2251799813685248"
    "wasm_calculateConfidence 3 6 = 7549747 / 8388608"
    by (simp_all add: calculateConfidence_values wasm_calculateConfidence_values
        confidence_values_def)
  from calculateConfidence_monotone_bounded [of 1 6 3 0 1 6 3 0] v show ?thesis by simp
qed

subsection \<open>The endpoint registry\<close>

lemma map_set_keys: "set (map fst (map_set k v reg)) = insert k (set (map fst reg))"
  by (induction reg) auto

lemma map_set_distinct: "distinct (map fst reg) \<Longrightarrow> distinct (map fst (map_set k v reg))"
proof (induction reg)
  case Nil
  then show ?case by simp
next
  case (Cons e es)
  have "set (map fst (map_set k v es)) = insert k (set (map fst es))"
    by (rule map_set_keys)
  with Cons show ?case by force
qed

lemma map_set_list_all: "list_all Q reg \<Longrightarrow> Q (k, v) \<Longrightarrow> list_all Q (map_set k v reg)"
  by (induction reg) auto

lemma map_set_inv:
  "reg_inv reg \<Longrightarrow> k = ep_id v \<Longrightarrow> k = ep_method v @ '':'' @ ep_url v \<Longrightarrow>
   reg_inv (map_set k v reg)"
  by (simp add: reg_inv_def map_set_distinct map_set_list_all)

lemma createEndpoint_fields:
  "createEndpoint parseURL url method src depth = Some e \<Longrightarrow>
     ep_id e = method @ '':'' @ url \<and> ep_method e = method \<and> ep_url e = url \<and> ep_source e = src
     \<and> ep_depth e = depth \<and> ep_security e = Some (analyzeEndpointSecurity url method)"
  by (auto simp: createEndpoint_def split: option.splits)

lemma written_identity:
  "written parseURL w = Some e \<Longrightarrow> ep_id e = ep_method e @ '':'' @ ep_url e"
  by (cases w) (auto dest: createEndpoint_fields)

lemma applyWrite_written:
  "applyWrite parseURL w reg =
     (case written parseURL w of None \<Rightarrow> reg | Some e \<Rightarrow> map_set (ep_id e) e reg)"
  by (cases w) (auto simp: recordEndpoint_def recordResponse_def Let_def split: option.splits)

lemma applyWrite_inv: "reg_inv reg \<Longrightarrow> reg_inv (applyWrite parseURL w reg)"
  by (auto simp: applyWrite_written map_set_inv written_identity split: option.splits)

lemma applyWrites_snoc:
  "applyWrites parseURL (ws @ [w]) reg = applyWrite parseURL w (applyWrites parseURL ws reg)"
  by (simp add: applyWrites_def)

lemma applyWrites_inv: "reg_inv reg \<Longrightarrow> reg_inv (applyWrites parseURL ws reg)"
  by (induction ws rule: rev_induct) (simp_all add: applyWrites_snoc applyWrite_inv, simp add: applyWrites_def)

lemma reg_inv_distinct_pairs:
  "reg_inv reg \<Longrightarrow> distinct (map (\<lambda>e. (ep_method e, ep_url e)) (map_values reg))"
proof (induction reg)
  case Nil
  then show ?case by (simp add: map_values_def)
next
  case (Cons e es)
  from Cons.prems(1) have inv: "reg_inv es" and fresh: "fst e \<notin> fst ` set es"
    and key: "fst e = ep_method (snd e) @ '':'' @ ep_url (snd e)"
    and keys: "list_all (\<lambda>x. fst x = ep_method (snd x) @ '':'' @ ep_url (snd x)) es"
    by (force simp: reg_inv_def list_all_iff)+
  have "(ep_method (snd e), ep_url (snd e)) \<notin> (\<lambda>x. (ep_method x, ep_url x)) ` snd ` set es"
  proof
    assume "(ep_method (snd e), ep_url (snd e)) \<in> (\<lambda>x. (ep_method x, ep_url x)) ` snd ` set es"
    then obtain x where x: "x \<in> set es" "ep_method (snd x) = ep_method (snd e)"
      "ep_url (snd x) = ep_url (snd e)" by auto
    with keys have "fst x = fst e" using key by (auto simp: list_all_iff)
    with x(1) fresh show False by (metis imageI)
  qed
  with Cons.IH [OF inv] show ?case by (simp add: map_values_def image_image)
qed

lemma filter_id_absent:
  "list_all (\<lambda>x. fst x = ep_id (snd x)) es \<Longrightarrow> k \<notin> fst ` set es \<Longrightarrow>
   filter (\<lambda>x. ep_id x = k) (map snd es) = []"
  by (induction es) auto

lemma map_set_filter_id:
  "distinct (map fst reg) \<Longrightarrow> list_all (\<lambda>x. fst x = ep_id (snd x)) reg \<Longrightarrow> ep_id v = k' \<Longrightarrow>
   filter (\<lambda>x. ep_id x = k) (map snd (map_set k' v reg))
     = (if k' = k then [v] else filter (\<lambda>x. ep_id x = k) (map snd reg))"
proof (induction reg)
  case Nil
  then show ?case by simp
next
  case (Cons e es)
  from Cons.prems have d: "distinct (map fst es)" and fresh: "fst e \<notin> fst ` set es"
    and key: "fst e = ep_id (snd e)" and keys: "list_all (\<lambda>x. fst x = ep_id (snd x)) es"
    by simp_all
  show ?case
  proof (cases "fst e = k'")
    case True
    from filter_id_absent [OF keys, of k'] fresh True
    have "filter (\<lambda>x. ep_id x = k') (map snd es) = []" by simp
    with True key Cons.prems(3) show ?thesis by auto
  next
    case False
    with Cons.IH [OF d keys Cons.prems(3)] key show ?thesis by auto
  qed
qed

lemma lastWritten_snoc:
  "lastWritten parseURL k (ws @ [w]) =
     (case written parseURL w of
        None \<Rightarrow> lastWritten parseURL k ws
      | Some e \<Rightarrow> if ep_id e = k then Some e else lastWritten parseURL k ws)"
  by (auto simp: lastWritten_def List.map_filter_def Let_def split: option.splits)

lemma registry_last_write:
  "filter (\<lambda>x. ep_id x = k) (map_values (applyWrites parseURL ws []))
     = (case lastWritten parseURL k ws of None \<Rightarrow> [] | Some e \<Rightarrow> [e])"
proof (induction ws rule: rev_induct)
  case Nil
  show ?case by (simp add: applyWrites_def map_values_def lastWritten_def List.map_filter_def)
next
  case (snoc w ws)
  have inv: "reg_inv (applyWrites parseURL ws [])"
    by (rule applyWrites_inv) (simp add: reg_inv_def)
  then have d: "distinct (map fst (applyWrites parseURL ws []))"
    and keys: "list_all (\<lambda>x. fst x = ep_id (snd x)) (applyWrites parseURL ws [])"
    by (auto simp: reg_inv_def list_all_iff)
  show ?case
  proof (cases "written parseURL w")
    case None
    with snoc show ?thesis
      by (simp add: applyWrites_snoc applyWrite_written lastWritten_snoc)
  next
    case (Some e)
    from map_set_filter_id [OF d keys refl, where v = e and k = k] snoc Some show ?thesis
      by (simp add: applyWrites_snoc applyWrite_written lastWritten_snoc map_values_def)
  qed
qed

text \<open>
  C2: after any sequence of registry writes, the (method, url) pairs of the endpoints are
  pairwise different; every entry sits under the key method + ":" + url, which is its id;
  and for every identity string the registry holds exactly the endpoint written last
  under it (none if nothing was written under it): a later record replaces the earlier
  one and keeps its own source and metadata.
\<close>

theorem registry_identity_unique:
  "distinct (map (\<lambda>e. (ep_method e, ep_url e)) (map_values (applyWrites parseURL ws [])))
   \<and> list_all (\<lambda>ke. fst ke = ep_id (snd ke) \<and> fst ke = ep_method (snd ke) @ '':'' @ ep_url (snd ke))
        (applyWrites parseURL ws [])
   \<and> filter (\<lambda>x. ep_id x = k) (map_values (applyWrites parseURL ws []))
       = (case lastWritten parseURL k ws of None \<Rightarrow> [] | Some e \<Rightarrow> [e])"
proof -
  have inv: "reg_inv (applyWrites parseURL ws [])"
    by (rule applyWrites_inv) (simp add: reg_inv_def)
  from inv reg_inv_distinct_pairs [OF inv] registry_last_write [of k parseURL ws]
  show ?thesis by (simp add: reg_inv_def)
qed

theorem registry_identity_unique_witness:
  "map (\<lambda>e. (ep_method e, ep_url e, ep_source e, ep_depth e))
     (map_values (applyWrites demoParser
        [Record ''https://shop.test/api/users'' ''GET'' Sitemap 0,
         Record ''https://shop.test/api/report'' ''GET'' Crawl 0,
         Record ''https://shop.test/api/users'' ''GET'' Html 1] []))
   = [(''GET'', ''https://shop.test/api/users'', Html, 1),
      (''GET'', ''https://shop.test/api/report'', Crawl, 0)]
   \<and> map ep_source (filter (\<lambda>x. ep_id x = ''GET:https://shop.test/api/users'')
       (map_values (applyWrites demoParser
        [Record ''https://shop.test/api/users'' ''GET'' Sitemap 0,
         Record ''https://shop.test/api/report'' ''GET'' Crawl 0,
         Record ''https://shop.test/api/users'' ''GET'' Html 1] []))) = [Html]"
proof -
  have l: "map_option ep_source (lastWritten demoParser ''GET:https://shop.test/api/users''
        [Record ''https://shop.test/api/users'' ''GET'' Sitemap 0,
         Record ''https://shop.test/api/report'' ''GET'' Crawl 0,
         Record ''https://shop.test/api/users'' ''GET'' Html 1]) = Some Html"
    by code_simp
  have v: "map (\<lambda>e. (ep_method e, ep_url e, ep_source e, ep_depth e))
     (map_values (applyWrites demoParser
        [Record ''https://shop.test/api/users'' ''GET'' Sitemap 0,
         Record ''https://shop.test/api/report'' ''GET'' Crawl 0,
         Record ''https://shop.test/api/users'' ''GET'' Html 1] []))
   = [(''GET'', ''https://shop.test/api/users'', Html, 1),
      (''GET'', ''https://shop.test/api/report'', Crawl, 0)]"
    by code_simp
  from registry_identity_unique [of demoParser
        "[Record ''https://shop.test/api/users'' ''GET'' Sitemap 0,
         Record ''https://shop.test/api/report'' ''GET'' Crawl 0,
         Record ''https://shop.test/api/users'' ''GET'' Html 1]" "''GET:https://shop.test/api/users''"] l v
  show ?thesis by (auto split: option.splits)
qed

subsection \<open>The security classifier\<close>

lemma analyzeEndpointSecurity_riskLevel:
  "riskLevel (analyzeEndpointSecurity url method) =
     (if method = ''DELETE'' then High else if startsWith url ''http://'' then Medium else Low)"
  by (simp add: analyzeEndpointSecurity_def)

lemma analyzeEndpointSecurity_max:
  "riskLevel (analyzeEndpointSecurity url method)
     = maxSeverity (vulnerabilities (analyzeEndpointSecurity url method))"
  by (simp add: analyzeEndpointSecurity_def maxSeverity_def sev_max_def)

lemma analyzeEndpointSecurity_hasAuth:
  "hasAuth (analyzeEndpointSecurity url method)
     = (str_includes url ''/auth'' \<or> str_includes url ''/login'')"
  by (simp add: analyzeEndpointSecurity_def Let_def split: prod.splits)

text \<open>
  C3: every created endpoint carries a security analysis whose findings are exactly the
  triggered ones, in rule order: "Insecure Protocol" of severity medium when the URL
  starts with http://, then "Destructive Operation" of severity high when the method is
  DELETE. Its risk level is the greatest severity among these findings (low when there is
  none): high for DELETE whatever the URL, otherwise medium for http://, otherwise low.
  So DELETE gives at least high, also over a medium set before, and http:// gives at
  least medium. hasAuth holds exactly when the URL text contains /auth or /login.
\<close>

theorem createEndpoint_security:
  assumes "createEndpoint parseURL url method src depth = Some e"
  shows "\<exists>sec. ep_security e = Some sec
           \<and> map (\<lambda>v. (v_type v, v_severity v)) (vulnerabilities sec)
               = (if startsWith (ep_url e) ''http://'' then [(''Insecure Protocol'', Medium)] else [])
                 @ (if ep_method e = ''DELETE'' then [(''Destructive Operation'', High)] else [])
           \<and> riskLevel sec = maxSeverity (vulnerabilities sec)
           \<and> riskLevel sec
               = (if ep_method e = ''DELETE'' then High
                  else if startsWith (ep_url e) ''http://'' then Medium else Low)
           \<and> (ep_method e = ''DELETE'' \<longrightarrow> rank High \<le> rank (riskLevel sec))
           \<and> (startsWith (ep_url e) ''http://'' \<longrightarrow> rank Medium \<le> rank (riskLevel sec))
           \<and> hasAuth sec = (str_includes (ep_url e) ''/auth'' \<or> str_includes (ep_url e) ''/login'')"
proof -
  from createEndpoint_fields [OF assms]
  have f: "ep_method e = method" "ep_url e = url"
    "ep_security e = Some (analyzeEndpointSecurity url method)" by simp_all
  let ?sec = "analyzeEndpointSecurity url method"
  have v: "map (\<lambda>v. (v_type v, v_severity v)) (vulnerabilities ?sec)
             = (if startsWith url ''http://'' then [(''Insecure Protocol'', Medium)] else [])
               @ (if method = ''DELETE'' then [(''Destructive Operation'', High)] else [])"
    by (simp add: analyzeEndpointSecurity_def)
  have r: "riskLevel ?sec
             = (if method = ''DELETE'' then High
                else if startsWith url ''http://'' then Medium else Low)"
    by (rule analyzeEndpointSecurity_riskLevel)
  have d: "method = ''DELETE'' \<longrightarrow> rank High \<le> rank (riskLevel ?sec)"
    by (simp add: analyzeEndpointSecurity_riskLevel)
  have h: "startsWith url ''http://'' \<longrightarrow> rank Medium \<le> rank (riskLevel ?sec)"
    by (simp add: analyzeEndpointSecurity_riskLevel)
  have m: "riskLevel ?sec = maxSeverity (vulnerabilities ?sec)"
    by (rule analyzeEndpointSecurity_max)
  have a: "hasAuth ?sec = (str_includes url ''/auth'' \<or> str_includes url ''/login'')"
    by (rule analyzeEndpointSecurity_hasAuth)
  show ?thesis
    unfolding f using v r d h m a by blast
qed

theorem createEndpoint_security_witness:
  "createEndpoint demoParser ''http://shop.test/login'' ''DELETE'' Crawl 0 \<noteq> None
   \<and> (\<exists>sec. ep_security (the (createEndpoint demoParser ''http://shop.test/login'' ''DELETE'' Crawl 0))
               = Some sec
        \<and> map (\<lambda>v. (v_type v, v_severity v)) (vulnerabilities sec)
            = [(''Insecure Protocol'', Medium), (''Destructive Operation'', High)]
        \<and> riskLevel sec = High \<and> hasAuth sec)
   \<and> createEndpoint demoParser ''https://shop.test/api/users'' ''GET'' Crawl 0 \<noteq> None
   \<and> (\<exists>sec. ep_security (the (createEndpoint demoParser ''https://shop.test/api/users'' ''GET'' Crawl 0))
               = Some sec
        \<and> vulnerabilities sec = [] \<and> riskLevel sec = Low \<and> \<not> hasAuth sec)"
proof -
  obtain e where c: "createEndpoint demoParser ''http://shop.test/login'' ''DELETE'' Crawl 0 = Some e"
    by (simp add: createEndpoint_def demoParser_def)
  obtain e' where c': "createEndpoint demoParser ''https://shop.test/api/users'' ''GET'' Crawl 0 = Some e'"
    by (simp add: createEndpoint_def demoParser_def)
  from createEndpoint_fields [OF c]
  have f: "ep_method e = ''DELETE''" "ep_url e = ''http://shop.test/login''"
    by simp_all
  from createEndpoint_fields [OF c']
  have f': "ep_method e' = ''GET''" "ep_url e' = ''https://shop.test/api/users''"
    by simp_all
  have h: "startsWith ''http://shop.test/login'' ''http://''"
    "str_includes ''http://shop.test/login'' ''/login''"
    "\<not> startsWith ''https://shop.test/api/users'' ''http://''"
    "\<not> str_includes ''https://shop.test/api/users'' ''/login''"
    "\<not> str_includes ''https://shop.test/api/users'' ''/auth''"
    by (simp_all add: startsWith_def)
  from createEndpoint_security [OF c] f h c
  have one: "\<exists>sec. ep_security (the (createEndpoint demoParser ''http://shop.test/login'' ''DELETE'' Crawl 0))
               = Some sec
        \<and> map (\<lambda>v. (v_type v, v_severity v)) (vulnerabilities sec)
            = [(''Insecure Protocol'', Medium), (''Destructive Operation'', High)]
        \<and> riskLevel sec = High \<and> hasAuth sec"
    by auto
  from createEndpoint_security [OF c'] f' h c'
  have two: "\<exists>sec. ep_security (the (createEndpoint demoParser ''https://shop.test/api/users'' ''GET'' Crawl 0))
               = Some sec
        \<and> vulnerabilities sec = [] \<and> riskLevel sec = Low \<and> \<not> hasAuth sec"
    by auto
  from one two c c' show ?thesis by simp
qed

subsection \<open>Domain validation\<close>

text \<open>
  C9: the validator accepts example.com, api.example.co.uk, localhost and 192.168.1.1 and
  rejects "not a domain!!".
\<close>

theorem isValidDomain_test_vector:
  "isValidDomain ''example.com'' \<and> isValidDomain ''api.example.co.uk''
   \<and> isValidDomain ''localhost'' \<and> isValidDomain ''192.168.1.1''
   \<and> \<not> isValidDomain ''not a domain!!''"
  by code_simp

subsection \<open>Parameters of a created endpoint\<close>

text \<open>
  C10: every parameter of a created endpoint is required exactly when its kind is path;
  query parameters are never required, and no other kind is produced at creation.
\<close>

theorem createEndpoint_required_iff_path:
  assumes "createEndpoint parseURL url method src depth = Some e"
  shows "\<forall>p \<in> set (ep_parameters e).
           (p_required p \<longleftrightarrow> p_type p = Path)
           \<and> (p_type p = Query \<longrightarrow> \<not> p_required p)
           \<and> (p_type p = Query \<or> p_type p = Path)"
  using assms
  by (auto simp: createEndpoint_def extractParameters_def split: option.splits)

theorem createEndpoint_required_iff_path_witness:
  "createEndpoint demoParser ''https://shop.test/users/{id}/:tab?page=2'' ''GET'' Html 1 \<noteq> None
   \<and> map (\<lambda>p. (p_name p, p_type p, p_required p))
        (ep_parameters
          (the (createEndpoint demoParser ''https://shop.test/users/{id}/:tab?page=2'' ''GET'' Html 1)))
      = [(''page'', Query, False), (''id'', Path, True), (''tab'', Path, True)]
   \<and> list_all (\<lambda>p. p_required p \<longleftrightarrow> p_type p = Path)
        (ep_parameters
          (the (createEndpoint demoParser ''https://shop.test/users/{id}/:tab?page=2'' ''GET'' Html 1)))"
proof -
  obtain e where
    c: "createEndpoint demoParser ''https://shop.test/users/{id}/:tab?page=2'' ''GET'' Html 1 = Some e"
    by (simp add: createEndpoint_def demoParser_def)
  have l: "map (\<lambda>p. (p_name p, p_type p, p_required p))
        (ep_parameters
          (the (createEndpoint demoParser ''https://shop.test/users/{id}/:tab?page=2'' ''GET'' Html 1)))
      = [(''page'', Query, False), (''id'', Path, True), (''tab'', Path, True)]"
    by code_simp
  from createEndpoint_required_iff_path [OF c] c l show ?thesis
    by (simp add: list_all_iff)
qed

subsection \<open>Link following\<close>

text \<open>
  C6 says that the link-following decision rejects URLs with a non-content file
  extension unless the URL looks like an API, which always overrides that exclusion.
  The code does not keep this: the extension test of \<open>shouldCrawlUrl\<close> stands before
  the API test, so a URL that looks like an API and whose path ends in .png is rejected.
\<close>

theorem shouldCrawlUrl_api_override_counterexample:
  "looksLikeAPI ''https://shop.test/api/logo.png''
   \<and> \<not> shouldCrawlUrl defaultConfig demoParser ''https://shop.test/api/logo.png'' ''https://shop.test/''"
  by code_simp

text \<open>
  The order of the tests: a skip extension rejects the URL before the API test is
  reached, while the tests that follow it (scheme, fragment) are not reached by a URL
  that looks like an API.
\<close>

lemma shouldCrawlUrl_test_order:
  "(parseURL url = Some urlObj \<and> hasSkipExtension urlObj
      \<longrightarrow> \<not> shouldCrawlUrl cfg parseURL url baseUrl)
   \<and> (parseURL url = Some urlObj \<and> parseURL baseUrl = Some baseObj
       \<and> passesExternalGate cfg url urlObj baseObj
       \<and> \<not> hasSkipExtension urlObj \<and> looksLikeAPI url
      \<longrightarrow> shouldCrawlUrl cfg parseURL url baseUrl)"
  by (auto simp: shouldCrawlUrl_def passesExternalGate_def split: option.splits)

subsection \<open>Invalid domains\<close>

lemma crawl_invalid:
  assumes "normalizeUrl (newURL env) domain = None"
  shows "crawl env stages domain callback c =
     (Inl (Error ''Invalid domain provided''),
      cleanup (updateProgress
        (updateProgress (initialize env (c\<lparr>onProgress := callback\<rparr>))
           \<lparr>stage = Initializing, progress = 0, currentUrl = None,
            pagesScanned = 0, endpointsFound = 0, message = ''Initializing crawler...''\<rparr>)
        \<lparr>stage = ErrorStage, progress = 0, currentUrl = None,
         pagesScanned = length (visitedUrls c), endpointsFound = length (foundEndpoints c),
         message = ''Error: Invalid domain provided''\<rparr>))"
  using assms
  by (simp add: crawl_def Let_def updateProgress_def initialize_def split: sum.splits)

text \<open>
  C7: when the URL normaliser cannot parse the domain, \<open>crawl\<close> rejects with the error
  "Invalid domain provided", sends no request to the target, visits nothing, reports the
  stages initializing and error (and no other) to the progress callback when one is
  installed, and never enters the stages after validation: the outcome does not depend
  on them.
\<close>

theorem crawl_invalid_domain:
  assumes "normalizeUrl (newURL env) domain = None"
  shows "fst (crawl env stages domain callback (newCrawler cfg)) = Inl (Error ''Invalid domain provided'')
     \<and> requests (snd (crawl env stages domain callback (newCrawler cfg))) = []
     \<and> map stage (delivered (snd (crawl env stages domain callback (newCrawler cfg))))
         = (if callback then [Initializing, ErrorStage] else [])
     \<and> visitedUrls (snd (crawl env stages domain callback (newCrawler cfg))) = []
     \<and> browser (snd (crawl env stages domain callback (newCrawler cfg))) = None
     \<and> crawl env stages domain callback (newCrawler cfg)
         = crawl env stages' domain callback (newCrawler cfg)"
  unfolding crawl_invalid [OF assms]
  by (simp add: cleanup_def updateProgress_def initialize_def newCrawler_def split: sum.splits)


theorem crawl_invalid_domain_witness:
  "normalizeUrl (newURL demoEnv) ''not a domain!!'' = None
   \<and> fst (crawl demoEnv (\<lambda>baseUrl c. (Inr (), c)) ''not a domain!!'' True (newCrawler defaultConfig))
       = Inl (Error ''Invalid domain provided'')
   \<and> requests (snd (crawl demoEnv (\<lambda>baseUrl c. (Inr (), c)) ''not a domain!!'' True
         (newCrawler defaultConfig))) = []
   \<and> map stage (delivered (snd (crawl demoEnv (\<lambda>baseUrl c. (Inr (), c)) ''not a domain!!'' True
         (newCrawler defaultConfig)))) = [Initializing, ErrorStage]"
proof -
  have h: "normalizeUrl (newURL demoEnv) ''not a domain!!'' = None"
    by (simp add: normalizeUrl_def demoEnv_def demoParser_def startsWith_def)
  from crawl_invalid_domain [OF h, of "\<lambda>baseUrl c. (Inr (), c)" True defaultConfig] h
  show ?thesis by simp
qed

subsection \<open>Fallback of the rendered fetch\<close>

lemma fetchPageContent_static:
  "\<not> (enableJavaScript (config c) \<and> browser c \<noteq> None) \<Longrightarrow>
   fetchPageContent env c url =
     (case httpGet env url of
        Inr content \<Rightarrow> (Inr (Some content), c\<lparr>requests := requests c @ [HttpGet url]\<rparr>)
      | Inl error \<Rightarrow>
          (Inr None,
           c\<lparr>requests := requests c @ [HttpGet url],
             errors := errors c @
               [\<lparr>ce_url = url, ce_error = ''Failed to fetch: '' @ errorMessage error,
                 ce_timestamp = clock env\<rparr>]\<rparr>))"
  by (auto simp: fetchPageContent_def fetchWithAxios_def split: sum.splits)

lemma fetchPageContent_rendered_failure:
  "enableJavaScript (config c) \<Longrightarrow> browser c \<noteq> None \<Longrightarrow> pageLoad env url = Inl e \<Longrightarrow>
   fetchPageContent env c url =
     (case httpGet env url of
        Inr content \<Rightarrow>
          (Inr (Some content), c\<lparr>requests := requests c @ [PageGoto url, HttpGet url]\<rparr>)
      | Inl error \<Rightarrow>
          (Inr None,
           c\<lparr>requests := requests c @ [PageGoto url, HttpGet url],
             errors := errors c @
               [\<lparr>ce_url = url, ce_error = ''Failed to fetch: '' @ errorMessage error,
                 ce_timestamp = clock env\<rparr>]\<rparr>))"
  by (auto simp: fetchPageContent_def fetchWithAxios_def fetchWithPuppeteer_def split: sum.splits)

lemma fetchPageContent_returns: "\<exists>r. fst (fetchPageContent env c url) = Inr r"
  by (auto simp: fetchPageContent_def fetchWithAxios_def fetchWithPuppeteer_def Let_def
      split: sum.splits prod.splits)

text \<open>
  C8: with JavaScript rendering enabled, a failed page load in the browser is followed by
  a fetch of the same URL with the static client, whose outcome is what
  \<open>fetchPageContent\<close> returns; a failed browser launch switches rendering off, after
  which the static client alone is used; and no exception ever leaves
  \<open>fetchPageContent\<close>.
\<close>

theorem fetchPageContent_fallback:
  "(enableJavaScript (config c) \<and> browser c \<noteq> None \<and> pageLoad env url = Inl e \<longrightarrow>
      fst (fetchPageContent env c url) = staticResult env url
      \<and> requests (snd (fetchPageContent env c url)) = requests c @ [PageGoto url, HttpGet url])
   \<and> (enableJavaScript (config c) \<and> browser c = None \<and> launch env = Inl e \<longrightarrow>
      \<not> enableJavaScript (config (initialize env c))
      \<and> fst (fetchPageContent env (initialize env c) url) = staticResult env url
      \<and> requests (snd (fetchPageContent env (initialize env c) url)) = requests c @ [HttpGet url])
   \<and> (\<exists>r. fst (fetchPageContent env c url) = Inr r)"
proof -
  have a: "fst (fetchPageContent env c url) = staticResult env url
      \<and> requests (snd (fetchPageContent env c url)) = requests c @ [PageGoto url, HttpGet url]"
    if "enableJavaScript (config c)" "browser c \<noteq> None" "pageLoad env url = Inl e"
    using fetchPageContent_rendered_failure [OF that]
    by (simp add: staticResult_def split: sum.splits)
  have b: "\<not> enableJavaScript (config (initialize env c))
      \<and> fst (fetchPageContent env (initialize env c) url) = staticResult env url
      \<and> requests (snd (fetchPageContent env (initialize env c) url)) = requests c @ [HttpGet url]"
    if h: "enableJavaScript (config c)" "browser c = None" "launch env = Inl e"
  proof -
    from h have i: "initialize env c = c\<lparr>config := (config c)\<lparr>enableJavaScript := False\<rparr>\<rparr>"
      by (simp add: initialize_def)
    have n: "\<not> (enableJavaScript (config (initialize env c)) \<and> browser (initialize env c) \<noteq> None)"
      by (simp add: i)
    from fetchPageContent_static [OF n, of env url] show ?thesis
      by (simp add: i staticResult_def split: sum.splits)
  qed
  from a b fetchPageContent_returns [of env c url] show ?thesis by blast
qed

theorem fetchPageContent_fallback_witness:
  "pageLoad demoEnv ''https://shop.test/'' = Inl (Error ''Navigation timeout of 10000 ms exceeded'')
   \<and> fst (fetchPageContent demoEnv ((newCrawler defaultConfig)\<lparr>browser := Some Browser\<rparr>) ''https://shop.test/'')
       = Inr (Some ''<html></html>'')
   \<and> requests (snd (fetchPageContent demoEnv ((newCrawler defaultConfig)\<lparr>browser := Some Browser\<rparr>)
        ''https://shop.test/'')) = [PageGoto ''https://shop.test/'', HttpGet ''https://shop.test/'']
   \<and> launch demoEnv = Inl (Error ''Failed to launch the browser process'')
   \<and> fst (fetchPageContent demoEnv (initialize demoEnv (newCrawler defaultConfig)) ''https://shop.test/'')
       = Inr (Some ''<html></html>'')
   \<and> requests (snd (fetchPageContent demoEnv (initialize demoEnv (newCrawler defaultConfig))
        ''https://shop.test/'')) = [HttpGet ''https://shop.test/'']"
proof -
  have e: "pageLoad demoEnv ''https://shop.test/'' = Inl (Error ''Navigation timeout of 10000 ms exceeded'')"
    "launch demoEnv = Inl (Error ''Failed to launch the browser process'')"
    "staticResult demoEnv ''https://shop.test/'' = Inr (Some ''<html></html>'')"
    by (simp_all add: demoEnv_def staticResult_def)
  have c1: "enableJavaScript (config ((newCrawler defaultConfig)\<lparr>browser := Some Browser\<rparr>))"
    "browser ((newCrawler defaultConfig)\<lparr>browser := Some Browser\<rparr>) \<noteq> None"
    "requests ((newCrawler defaultConfig)\<lparr>browser := Some Browser\<rparr>) = []"
    by (simp_all add: newCrawler_def defaultConfig_def)
  have c2: "enableJavaScript (config (newCrawler defaultConfig))"
    "browser (newCrawler defaultConfig) = None" "requests (newCrawler defaultConfig) = []"
    by (simp_all add: newCrawler_def defaultConfig_def)
  from fetchPageContent_fallback [of "(newCrawler defaultConfig)\<lparr>browser := Some Browser\<rparr>" demoEnv
      "''https://shop.test/''" "Error ''Navigation timeout of 10000 ms exceeded''"] e c1
  have r1: "fst (fetchPageContent demoEnv ((newCrawler defaultConfig)\<lparr>browser := Some Browser\<rparr>) ''https://shop.test/'')
       = Inr (Some ''<html></html>'')
     \<and> requests (snd (fetchPageContent demoEnv ((newCrawler defaultConfig)\<lparr>browser := Some Browser\<rparr>)
        ''https://shop.test/'')) = [PageGoto ''https://shop.test/'', HttpGet ''https://shop.test/'']"
    by simp
  from fetchPageContent_fallback [of "newCrawler defaultConfig" demoEnv
      "''https://shop.test/''" "Error ''Failed to launch the browser process''"] e c2
  have r2: "fst (fetchPageContent demoEnv (initialize demoEnv (newCrawler defaultConfig)) ''https://shop.test/'')
       = Inr (Some ''<html></html>'')
     \<and> requests (snd (fetchPageContent demoEnv (initialize demoEnv (newCrawler defaultConfig))
        ''https://shop.test/'')) = [HttpGet ''https://shop.test/'']"
    by simp
  from e r1 r2 show ?thesis by simp
qed

subsection \<open>The page budget under parallel admission\<close>

text \<open>
  C1 says that a completed session has visited at most \<open>config.maxPages\<close> URLs, also
  when the parallel loop admits several fetches at once. The code does not keep this:
  \<open>crawlSingle\<close> tests the budget before it awaits the rate limiter and adds the URL to
  \<open>visitedUrls\<close> after it, and \<open>crawlParallel\<close> starts every call of one batch before
  any of them resumes. With a budget of one page and two queued URLs both calls pass the
  test, and \<open>crawlParallel\<close> returns with two visited URLs.
\<close>

theorem crawlParallel_exceeds_maxPages:
  "map_option (\<lambda>s. (fst s, visitedUrls (snd s), maxPages (config (snd s))))
     (crawlParallel demoEnv
        [RateLimiterGrants 0, RateLimiterGrants 1, FetchCompletes 0, FinallyRuns 0, LoopResumes,
         FetchCompletes 0, FinallyRuns 0, LoopResumes]
        twoQueued)
   = Some (Returned, [''https://shop.test/api/users'', ''https://shop.test''], 1)"
  by code_simp

subsection \<open>The bound that parallel admission keeps\<close>

lemma pending_le_length: "pending active \<le> length active"
  by (simp add: pending_def)

lemma pending_append: "pending (xs @ ys) = pending xs + pending ys"
  by (simp add: pending_def)

lemma admit_budget:
  "length active \<le> maxConcurrentCrawls \<Longrightarrow>
   int (length (visitedUrls c)) + int (pending active) \<le> max 0 (maxPages (config c) + 15) \<Longrightarrow>
   length (fst (admit c active queue)) \<le> maxConcurrentCrawls
   \<and> int (length (visitedUrls c)) + int (pending (fst (admit c active queue)))
       \<le> max 0 (maxPages (config c) + 15)"
proof (induction queue arbitrary: active)
  case Nil
  then show ?case by simp
next
  case (Cons url queue)
  show ?case
  proof (cases "length active < maxConcurrentCrawls \<and> url \<noteq> [] \<and> url \<notin> set (visitedUrls c)")
    case True
    let ?t = "(url, crawlSingle_enter c url)"
    have len: "length (active @ [?t]) \<le> maxConcurrentCrawls" using True by simp
    have bud: "int (length (visitedUrls c)) + int (pending (active @ [?t]))
                 \<le> max 0 (maxPages (config c) + 15)"
    proof (cases "crawlSingle_enter c url = AwaitRateLimiter")
      case False
      then have "pending (active @ [?t]) = pending active"
        by (simp add: pending_append) (simp add: pending_def)
      with Cons.prems(2) show ?thesis by simp
    next
      case await: True
      then have small: "int (length (visitedUrls c)) < maxPages (config c)"
        by (auto simp: crawlSingle_enter_def split: if_splits)
      have "pending (active @ [?t]) = pending active + 1"
        using await by (simp add: pending_append) (simp add: pending_def)
      moreover have "pending active \<le> length active" by (rule pending_le_length)
      moreover have "length active < 16" using True by (simp add: maxConcurrentCrawls_def)
      ultimately show ?thesis using small by simp
    qed
    from Cons.IH [OF len bud] True show ?thesis by simp
  next
    case False
    with Cons show ?thesis by auto
  qed
qed

lemma crawlParallel_resume_stop:
  "\<not> (crawlQueue c \<noteq> [] \<and> int (length (visitedUrls c)) < maxPages (config c)) \<Longrightarrow>
   crawlParallel_resume c = (AwaitAll, c)"
  by (subst crawlParallel_resume.simps) auto

lemma crawlParallel_resume_race:
  "crawlQueue c \<noteq> [] \<and> int (length (visitedUrls c)) < maxPages (config c) \<Longrightarrow>
   fst (admit c (activeCrawls c) (crawlQueue c)) \<noteq> [] \<Longrightarrow>
   crawlParallel_resume c =
     (AwaitRace False,
      c\<lparr>activeCrawls := fst (admit c (activeCrawls c) (crawlQueue c)),
        crawlQueue := snd (admit c (activeCrawls c) (crawlQueue c))\<rparr>)"
  by (subst crawlParallel_resume.simps) (simp add: Let_def)

lemma crawlParallel_resume_again:
  "crawlQueue c \<noteq> [] \<and> int (length (visitedUrls c)) < maxPages (config c) \<Longrightarrow>
   fst (admit c (activeCrawls c) (crawlQueue c)) = [] \<Longrightarrow>
   crawlParallel_resume c =
     crawlParallel_resume
       (c\<lparr>activeCrawls := fst (admit c (activeCrawls c) (crawlQueue c)),
          crawlQueue := snd (admit c (activeCrawls c) (crawlQueue c))\<rparr>)"
  by (subst crawlParallel_resume.simps) (simp add: Let_def)

lemma crawlParallel_resume_budget:
  "budget_inv M c \<Longrightarrow> budget_inv M (snd (crawlParallel_resume c))"
proof (induction c rule: crawlParallel_resume.induct)
  case (1 c)
  show ?case
  proof (cases "crawlQueue c \<noteq> [] \<and> int (length (visitedUrls c)) < maxPages (config c)")
    case False
    with "1.prems" show ?thesis by (simp add: crawlParallel_resume_stop)
  next
    case True
    let ?a = "admit c (activeCrawls c) (crawlQueue c)"
    let ?c' = "c\<lparr>activeCrawls := fst ?a, crawlQueue := snd ?a\<rparr>"
    from "1.prems" have "length (activeCrawls c) \<le> maxConcurrentCrawls"
      and "int (length (visitedUrls c)) + int (pending (activeCrawls c))
             \<le> max 0 (maxPages (config c) + 15)" and m: "maxPages (config c) = M"
      by (simp_all add: budget_inv_def)
    from admit_budget [OF this(1,2), of "crawlQueue c"] m
    have inv': "budget_inv M ?c'" by (simp add: budget_inv_def)
    show ?thesis
    proof (cases "fst ?a \<noteq> []")
      case nonempty: True
      from inv' show ?thesis by (simp add: crawlParallel_resume_race [OF True nonempty])
    next
      case False
      then have e: "fst ?a = []" by simp
      from "1.IH" [OF True refl refl False inv']
      show ?thesis by (simp add: crawlParallel_resume_again [OF True e])
    qed
  qed
qed

lemma pending_update:
  "i < length active \<Longrightarrow> snd (active ! i) = AwaitRateLimiter \<Longrightarrow> st \<noteq> AwaitRateLimiter \<Longrightarrow>
   pending (active[i := (u, st)]) + 1 = pending active"
  by (induction active arbitrary: i) (auto simp: pending_def nth_Cons split: nat.splits)

lemma pending_update_same:
  "i < length active \<Longrightarrow> snd (active ! i) \<noteq> AwaitRateLimiter \<Longrightarrow> st \<noteq> AwaitRateLimiter \<Longrightarrow>
   pending (active[i := (u, st)]) = pending active"
  by (induction active arbitrary: i) (auto simp: pending_def nth_Cons split: nat.splits)

lemma pending_remove:
  "i < length active \<Longrightarrow> snd (active ! i) \<noteq> AwaitRateLimiter \<Longrightarrow>
   pending (take i active @ drop (Suc i) active) = pending active"
  by (induction active arbitrary: i) (auto simp: pending_def nth_Cons split: nat.splits)


lemma updateProgress_fields:
  "config (updateProgress c p) = config c" "visitedUrls (updateProgress c p) = visitedUrls c"
  "activeCrawls (updateProgress c p) = activeCrawls c"
  by (simp_all add: updateProgress_def)

lemma crawlSingle_granted_fields:
  "config (crawlSingle_granted c url) = config c"
  "activeCrawls (crawlSingle_granted c url) = activeCrawls c"
  "visitedUrls (crawlSingle_granted c url) = set_add url (visitedUrls c)"
  by (simp_all add: crawlSingle_granted_def Let_def updateProgress_fields)

lemma crawlSingle_failed_fields:
  "config (crawlSingle_failed env c url e) = config c"
  "activeCrawls (crawlSingle_failed env c url e) = activeCrawls c"
  "visitedUrls (crawlSingle_failed env c url e) = visitedUrls c"
  by (simp_all add: crawlSingle_failed_def)

lemma fetchPageContent_fields:
  "config (snd (fetchPageContent env c url)) = config c"
  "activeCrawls (snd (fetchPageContent env c url)) = activeCrawls c"
  "visitedUrls (snd (fetchPageContent env c url)) = visitedUrls c"
  by (auto simp: fetchPageContent_def fetchWithAxios_def fetchWithPuppeteer_def Let_def
      split: sum.splits prod.splits)

lemma crawlSingle_fetched_fields:
  "config (crawlSingle_fetched env c url) = config c"
  "activeCrawls (crawlSingle_fetched env c url) = activeCrawls c"
  "visitedUrls (crawlSingle_fetched env c url) = visitedUrls c"
proof -
  obtain r c1 where f: "fetchPageContent env c url = (r, c1)" by (cases "fetchPageContent env c url")
  from fetchPageContent_fields [of env c url] f
  have c1: "config c1 = config c" "activeCrawls c1 = activeCrawls c" "visitedUrls c1 = visitedUrls c"
    by simp_all
  show "config (crawlSingle_fetched env c url) = config c"
    "activeCrawls (crawlSingle_fetched env c url) = activeCrawls c"
    "visitedUrls (crawlSingle_fetched env c url) = visitedUrls c"
    using f c1
    by (auto simp: crawlSingle_fetched_def crawlSingle_failed_fields split: sum.splits option.splits)
qed

lemma set_add_length: "length (set_add x xs) \<le> length xs + 1"
  by (simp add: set_add_def)

lemma step_budget:
  assumes inv: "budget_inv M c" and st: "step env e (l, c) = Some (l', c')"
  shows "budget_inv M c'"
proof (cases e)
  case (RateLimiterGrants i)
  with st obtain url where t: "i < length (activeCrawls c)" "activeCrawls c ! i = (url, AwaitRateLimiter)"
    and c': "c' = setTask i AwaitFetch (crawlSingle_granted c url)"
    by (auto simp: taskAt_def split: if_splits option.splits prod.splits task_state.splits)
  from t have "pending ((activeCrawls c)[i := (url, AwaitFetch)]) + 1 = pending (activeCrawls c)"
    by (intro pending_update) simp_all
  moreover have "length (set_add url (visitedUrls c)) \<le> length (visitedUrls c) + 1"
    by (rule set_add_length)
  ultimately show ?thesis
    using inv c' t by (simp add: budget_inv_def setTask_def crawlSingle_granted_fields)
next
  case (RateLimiterRejects i err)
  with st obtain url where t: "i < length (activeCrawls c)" "activeCrawls c ! i = (url, AwaitRateLimiter)"
    and c': "c' = setTask i Settled (crawlSingle_failed env c url err)"
    by (auto simp: taskAt_def split: if_splits option.splits prod.splits task_state.splits)
  from t have "pending ((activeCrawls c)[i := (url, Settled)]) + 1 = pending (activeCrawls c)"
    by (intro pending_update) simp_all
  then show ?thesis
    using inv c' t by (simp add: budget_inv_def setTask_def crawlSingle_failed_fields)
next
  case (FetchCompletes i)
  with st obtain url where t: "i < length (activeCrawls c)" "activeCrawls c ! i = (url, AwaitFetch)"
    and c': "c' = setTask i Settled (crawlSingle_fetched env c url)"
    by (auto simp: taskAt_def split: if_splits option.splits prod.splits task_state.splits)
  from t have "pending ((activeCrawls c)[i := (url, Settled)]) = pending (activeCrawls c)"
    by (intro pending_update_same) simp_all
  then show ?thesis
    using inv c' t by (simp add: budget_inv_def setTask_def crawlSingle_fetched_fields)
next
  case (FinallyRuns i)
  with st obtain url where t: "i < length (activeCrawls c)" "activeCrawls c ! i = (url, Settled)"
    and c': "c' = c\<lparr>activeCrawls := take i (activeCrawls c) @ drop (Suc i) (activeCrawls c)\<rparr>"
    by (auto simp: taskAt_def split: if_splits option.splits prod.splits task_state.splits)
  from t have "pending (take i (activeCrawls c) @ drop (Suc i) (activeCrawls c)) = pending (activeCrawls c)"
    by (intro pending_remove) simp_all
  then show ?thesis
    using inv c' t by (auto simp: budget_inv_def)
next
  case LoopResumes
  show ?thesis
  proof (cases l)
    case (AwaitRace won)
    with st LoopResumes have "c' = snd (crawlParallel_resume c)"
      by (auto split: if_splits)
    with inv show ?thesis by (simp add: crawlParallel_resume_budget)
  next
    case AwaitAll
    with st LoopResumes have "c' = c" by (auto split: if_splits)
    with inv show ?thesis by simp
  next
    case Returned
    with st LoopResumes show ?thesis by simp
  qed
qed

lemma run_events_budget:
  "budget_inv M (snd s) \<Longrightarrow> run_events env es s = Some s' \<Longrightarrow> budget_inv M (snd s')"
proof (induction es arbitrary: s)
  case Nil
  then show ?case by simp
next
  case (Cons e es)
  from Cons.prems(2) obtain s1 where s1: "step env e s = Some s1" and r: "run_events env es s1 = Some s'"
    by (auto split: option.splits)
  from s1 have "step env e (fst s, snd s) = Some (fst s1, snd s1)" by simp
  from step_budget [OF Cons.prems(1) this] have "budget_inv M (snd s1)" .
  from Cons.IH [OF this r] show ?case .
qed

text \<open>
  From an empty visited set and an empty active set, whatever steps the event loop takes,
  the visited set never exceeds the budget by more than fifteen URLs: a call passes the
  budget test only while the budget is not exhausted, and at most sixteen calls are
  active.
\<close>

lemma crawlParallel_visited_bound:
  assumes "visitedUrls c = []" and "activeCrawls c = []"
    and "crawlParallel env es c = Some (l, c')"
  shows "int (length (visitedUrls c')) \<le> max 0 (maxPages (config c) + 15)"
proof -
  from assms(1,2) have "budget_inv (maxPages (config c)) c"
    by (simp add: budget_inv_def pending_def)
  then have "budget_inv (maxPages (config c)) (snd (crawlParallel_resume c))"
    by (rule crawlParallel_resume_budget)
  from run_events_budget [OF this, of env es "(l, c')"] assms(3)
  have "budget_inv (maxPages (config c)) c'" by (simp add: crawlParallel_def)
  then show ?thesis by (simp add: budget_inv_def)
qed

end
